theory Spec2Isabelle
  imports Complex_Main
begin

section \<open>JavaScript values\<close>

subsection \<open>Numbers\<close>

text \<open>
  A JavaScript number is an IEEE 754 binary64 value: not-a-number, the two infinities,
  the two zeros, or a finite non-zero value. \<open>Fin 0\<close> is the positive zero and
  \<open>NegZero\<close> the negative one; a finite value is carried as the real number it denotes.
  Every real is admitted under \<open>Fin\<close>, so what holds for all \<open>Fin x\<close> holds for the
  binary64 values among them.
\<close>

datatype jsnum = NaN | PosInf | NegInf | NegZero | Fin real

fun is_zero :: "jsnum \<Rightarrow> bool" where
  "is_zero NegZero = True"
| "is_zero (Fin x) = (x = 0)"
| "is_zero _ = False"

fun is_finite :: "jsnum \<Rightarrow> bool" where
  "is_finite NegZero = True"
| "is_finite (Fin x) = True"
| "is_finite _ = False"

text \<open>The sign bit; \<open>NaN\<close> is given none.\<close>

fun sign_bit :: "jsnum \<Rightarrow> bool" where
  "sign_bit NegInf = True"
| "sign_bit NegZero = True"
| "sign_bit (Fin x) = (x < 0)"
| "sign_bit _ = False"

text \<open>The real value of a finite number (both zeros are 0).\<close>

fun val :: "jsnum \<Rightarrow> real" where
  "val (Fin x) = x"
| "val _ = 0"

text \<open>\<open>isNaN\<close> and the comparison \<open>x === 0\<close>, which holds for both zeros.\<close>

definition isNaN :: "jsnum \<Rightarrow> bool" where
  "isNaN x = (x = NaN)"

definition eq_zero :: "jsnum \<Rightarrow> bool" where
  "eq_zero x = is_zero x"

text \<open>
  The relational operators on numbers: every comparison with \<open>NaN\<close> is false, the
  infinities are below and above everything else, the two zeros are equal.
\<close>

fun js_lt :: "jsnum \<Rightarrow> jsnum \<Rightarrow> bool" where
  "js_lt NaN b = False"
| "js_lt a NaN = False"
| "js_lt PosInf b = False"
| "js_lt a NegInf = False"
| "js_lt NegInf b = True"
| "js_lt a PosInf = True"
| "js_lt a b = (val a < val b)"

definition js_gt :: "jsnum \<Rightarrow> jsnum \<Rightarrow> bool" where
  "js_gt a b = js_lt b a"

text \<open>Unary minus flips the sign bit and is exact.\<close>

fun js_neg :: "jsnum \<Rightarrow> jsnum" where
  "js_neg NaN = NaN"
| "js_neg PosInf = NegInf"
| "js_neg NegInf = PosInf"
| "js_neg NegZero = Fin 0"
| "js_neg (Fin x) = (if x = 0 then NegZero else Fin (- x))"

text \<open>\<open>Math.abs\<close> clears the sign bit.\<close>

fun js_abs :: "jsnum \<Rightarrow> jsnum" where
  "js_abs NaN = NaN"
| "js_abs PosInf = PosInf"
| "js_abs NegInf = PosInf"
| "js_abs NegZero = Fin 0"
| "js_abs (Fin x) = Fin \<bar>x\<bar>"

subsection \<open>Rounding to binary64\<close>

text \<open>
  Every arithmetic operation returns the exact result rounded to the nearest binary64
  value, ties to the even significand. \<open>quantum a\<close> is the exponent \<open>k\<close> of the spacing
  \<open>2 ^ k\<close> of the binary64 values around the magnitude \<open>a\<close>: \<open>\<lfloor>log\<^sub>2 a\<rfloor> - 52\<close>, and
  \<open>-1074\<close> in the subnormal range. It is found by binary search on the exponent.
\<close>

definition pow2 :: "int \<Rightarrow> real" where
  "pow2 k = (if 0 \<le> k then 2 ^ nat k else 1 / 2 ^ nat (- k))"

fun refine :: "real \<Rightarrow> int list \<Rightarrow> int \<Rightarrow> int" where
  "refine a [] k = k"
| "refine a (d # ds) k = refine a ds (if pow2 (k + d + 52) \<le> a then k + d else k)"

definition quantum :: "real \<Rightarrow> int" where
  "quantum a = refine a [1024, 512, 256, 128, 64, 32, 16, 8, 4, 2, 1] (- 1074)"

definition round_half_even :: "real \<Rightarrow> int" where
  "round_half_even y =
     (let n = \<lfloor>y\<rfloor>; r = y - of_int n
      in if r < 1 / 2 then n
         else if 1 / 2 < r then n + 1
         else if even n then n else n + 1)"

text \<open>
  \<open>fl x\<close> is the binary64 value nearest to the real \<open>x\<close>: a magnitude that rounds to
  \<open>2 ^ 1024\<close> or more overflows to an infinity, one that rounds to nothing underflows
  to the zero of the same sign.
\<close>

definition fl :: "real \<Rightarrow> jsnum" where
  "fl x =
     (let a = \<bar>x\<bar>; k = quantum a; m = round_half_even (a / pow2 k);
          r = of_int m * pow2 k
      in if pow2 1024 \<le> r then (if x < 0 then NegInf else PosInf)
         else if m = 0 then (if x < 0 then NegZero else Fin 0)
         else Fin (if x < 0 then - r else r))"

text \<open>A zero or an infinity with a given sign bit.\<close>

definition zero_sgn :: "bool \<Rightarrow> jsnum" where
  "zero_sgn neg = (if neg then NegZero else Fin 0)"

definition inf_sgn :: "bool \<Rightarrow> jsnum" where
  "inf_sgn neg = (if neg then NegInf else PosInf)"

text \<open>
  Addition: \<open>NaN\<close> is contagious, opposite infinities give \<open>NaN\<close>, an infinity absorbs
  a finite operand; two zeros give the negative zero only when both are negative, and
  an exact sum of zero is the positive zero.
\<close>

definition js_add :: "jsnum \<Rightarrow> jsnum \<Rightarrow> jsnum" where
  "js_add a b =
     (if a = NaN \<or> b = NaN then NaN
      else if \<not> is_finite a then
        (if \<not> is_finite b \<and> a \<noteq> b then NaN else a)
      else if \<not> is_finite b then b
      else if is_zero a \<and> is_zero b then zero_sgn (sign_bit a \<and> sign_bit b)
      else if val a + val b = 0 then Fin 0
      else fl (val a + val b))"

definition js_sub :: "jsnum \<Rightarrow> jsnum \<Rightarrow> jsnum" where
  "js_sub a b = js_add a (js_neg b)"

text \<open>
  Multiplication: the sign is the exclusive or of the signs; zero times infinity is
  \<open>NaN\<close>.
\<close>

definition js_mul :: "jsnum \<Rightarrow> jsnum \<Rightarrow> jsnum" where
  "js_mul a b =
     (if a = NaN \<or> b = NaN then NaN
      else let neg = (sign_bit a \<noteq> sign_bit b)
      in if \<not> is_finite a then (if is_zero b then NaN else inf_sgn neg)
         else if \<not> is_finite b then (if is_zero a then NaN else inf_sgn neg)
         else if is_zero a \<or> is_zero b then zero_sgn neg
         else fl (val a * val b))"

text \<open>
  Division: infinity by infinity and zero by zero are \<open>NaN\<close>; a non-zero value
  divided by a zero is an infinity; there is no exception.
\<close>

definition js_div :: "jsnum \<Rightarrow> jsnum \<Rightarrow> jsnum" where
  "js_div a b =
     (if a = NaN \<or> b = NaN then NaN
      else let neg = (sign_bit a \<noteq> sign_bit b)
      in if \<not> is_finite a then (if \<not> is_finite b then NaN else inf_sgn neg)
         else if \<not> is_finite b then zero_sgn neg
         else if is_zero b then (if is_zero a then NaN else inf_sgn neg)
         else if is_zero a then zero_sgn neg
         else fl (val a / val b))"

subsection \<open>Values read from parsed JSON\<close>

text \<open>
  A property read from an object that \<open>JSON.parse\<close> or \<open>response.json()\<close> built:
  \<open>JUndefined\<close> when the property is absent. An array or object is represented by the
  string its \<open>toString\<close> method returns, which is all that the conversions look at.
  Strings are lists of 8-bit characters.
\<close>

datatype jsval = JUndefined | JNull | JBool bool | JNum jsnum | JStr string | JObject string

text \<open>Truthiness, as tested by \<open>&&\<close> and \<open>!\<close>.\<close>

fun truthy :: "jsval \<Rightarrow> bool" where
  "truthy JUndefined = False"
| "truthy JNull = False"
| "truthy (JBool b) = b"
| "truthy (JNum x) = (x \<noteq> NaN \<and> \<not> is_zero x)"
| "truthy (JStr s) = (s \<noteq> [])"
| "truthy (JObject s) = True"

text \<open>
  An object built by \<open>JSON.parse\<close> or \<open>response.json()\<close>: the value of each
  property, \<open>JUndefined\<close> for a property it does not have.
\<close>

type_synonym jsobject = "string \<Rightarrow> jsval"

text \<open>
  The functions of the JavaScript runtime that work on text and are not modelled here
  are parameters: the conversion of a whole string to a number, \<open>parseFloat\<close> on a
  string, the printing of a number of magnitude at least \<open>10\<^sup>2\<^sup>1\<close>, the match of the
  regular expression of \<open>callGemini\<close> (its first group), \<open>JSON.parse\<close> (on the left
  the message of the exception), the message of the \<open>TypeError\<close> thrown when a
  method is called on a value that does not have it, and the string methods \<open>trim\<close>
  and \<open>toUpperCase\<close>, which follow the tables of Unicode.
\<close>

record builtins =
  StringToNumber :: "string \<Rightarrow> jsnum"
  parseFloat_text :: "string \<Rightarrow> jsnum"
  Number_toString :: "real \<Rightarrow> string"
  match_json_block :: "string \<Rightarrow> string option"
  JSON_parse :: "string \<Rightarrow> string + jsobject"
  TypeError_message :: "jsval \<Rightarrow> string \<Rightarrow> string"
  String_trim :: "string \<Rightarrow> string"
  String_toUpperCase :: "string \<Rightarrow> string"

text \<open>The conversion \<open>ToNumber\<close> that a comparison with a number applies.\<close>

fun toNumber :: "builtins \<Rightarrow> jsval \<Rightarrow> jsnum" where
  "toNumber bi JUndefined = NaN"
| "toNumber bi JNull = Fin 0"
| "toNumber bi (JBool b) = Fin (if b then 1 else 0)"
| "toNumber bi (JNum x) = x"
| "toNumber bi (JStr s) = StringToNumber bi s"
| "toNumber bi (JObject s) = StringToNumber bi s"

text \<open>
  \<open>parseFloat\<close> converts its argument to a string and parses the longest numeric
  prefix. A number prints as a literal that parses back to itself, except that the
  negative zero prints as \<open>0\<close>; \<open>undefined\<close>, \<open>null\<close>, \<open>true\<close> and \<open>false\<close> have no
  numeric prefix.
\<close>

fun parseFloat :: "builtins \<Rightarrow> jsval \<Rightarrow> jsnum" where
  "parseFloat bi JUndefined = NaN"
| "parseFloat bi JNull = NaN"
| "parseFloat bi (JBool b) = NaN"
| "parseFloat bi (JNum x) = (if x = NegZero then Fin 0 else x)"
| "parseFloat bi (JStr s) = parseFloat_text bi s"
| "parseFloat bi (JObject s) = parseFloat_text bi s"

subsection \<open>Strings\<close>

text \<open>The decimal digits of a natural number.\<close>

definition digit_char :: "nat \<Rightarrow> char" where
  "digit_char d = ''0123456789'' ! d"

fun decimal :: "nat \<Rightarrow> string" where
  "decimal n = (if n < 10 then [digit_char n] else decimal (n div 10) @ [digit_char (n mod 10)])"

declare decimal.simps [simp del]

text \<open>
  \<open>Number.prototype.toFixed\<close> with \<open>f\<close> fraction digits. A value that is not finite
  prints as its name. Otherwise the sign is taken off, a magnitude of \<open>10\<^sup>2\<^sup>1\<close> or more
  is printed by \<open>Number::toString\<close>, and a smaller one as the integer \<open>n\<close> nearest to
  \<open>x \<times> 10\<^sup>f\<close> (the larger one of two), padded with zeros to \<open>f + 1\<close> digits, with a point
  before the last \<open>f\<close>.
\<close>

definition fixed_digits :: "nat \<Rightarrow> nat \<Rightarrow> string" where
  "fixed_digits f n =
     (let m = decimal n
      in if f = 0 then m
         else let m' = (if length m \<le> f then replicate (f + 1 - length m) (CHR ''0'') @ m else m);
                  k = length m'
              in take (k - f) m' @ ''.'' @ drop (k - f) m')"

fun toFixed :: "builtins \<Rightarrow> nat \<Rightarrow> jsnum \<Rightarrow> string" where
  "toFixed bi f NaN = ''NaN''"
| "toFixed bi f PosInf = ''Infinity''"
| "toFixed bi f NegInf = ''-Infinity''"
| "toFixed bi f NegZero = fixed_digits f 0"
| "toFixed bi f (Fin x) =
     (if x < 0 then ''-'' else []) @
     (if 10 ^ 21 \<le> \<bar>x\<bar> then Number_toString bi \<bar>x\<bar>
      else fixed_digits f (nat \<lfloor>\<bar>x\<bar> * 10 ^ f + 1 / 2\<rfloor>))"

section \<open>Candidate selection\<close>

datatype direction = bullish | bearish

text \<open>
  Step 2 of the click handler: the two filters over the market list and the list
  \<open>allCandidates\<close>, each candidate \<open>{coin, direction}\<close> as a pair. The threshold is a
  number, so each comparison converts the property to a number.
\<close>

definition bullishCandidates :: "builtins \<Rightarrow> jsnum \<Rightarrow> jsobject list \<Rightarrow> jsobject list" where
  "bullishCandidates bi threshold topCryptos =
     filter (\<lambda>c. js_gt (toNumber bi (c ''price_change_percentage_24h'')) threshold) topCryptos"

definition bearishCandidates :: "builtins \<Rightarrow> jsnum \<Rightarrow> jsobject list \<Rightarrow> jsobject list" where
  "bearishCandidates bi threshold topCryptos =
     filter (\<lambda>c. js_lt (toNumber bi (c ''price_change_percentage_24h'')) (js_neg threshold))
       topCryptos"

definition allCandidates ::
  "builtins \<Rightarrow> jsnum \<Rightarrow> jsobject list \<Rightarrow> (jsobject \<times> direction) list" where
  "allCandidates bi threshold topCryptos =
     map (\<lambda>c. (c, bullish)) (bullishCandidates bi threshold topCryptos) @
     map (\<lambda>c. (c, bearish)) (bearishCandidates bi threshold topCryptos)"

section \<open>The outside world\<close>

text \<open>
  An awaited promise either throws the reason it was rejected with (the message of the
  error) or gives its value.
\<close>

datatype 'a promise = Rejected string | Fulfilled 'a

text \<open>
  The response of \<open>fetch\<close>: the flag \<open>ok\<close>, the status code, and what awaiting
  \<open>text()\<close> and \<open>json()\<close> gives.
\<close>

record 'a response =
  ok :: bool
  status :: nat
  text_of :: "string promise"
  json_of :: "'a promise"

text \<open>The settings, as the values of the five input elements.\<close>

record inputs =
  geminiKeyInput :: string
  riskAmountInput :: string
  rrRatioInput :: string
  coinCountInput :: string
  momentumThresholdInput :: string

text \<open>
  The prompt is a template literal with a fixed text; it is represented by the values
  put into its holes: the direction, the symbol in upper case, the price with 5 and
  the momentum with 2 decimals, and the closes that are joined into it.
\<close>

record prompt =
  p_direction :: direction
  p_symbol :: string
  p_current_price :: string
  p_momentum :: string
  p_closes :: "jsnum list"

text \<open>
  The two services, as what each request is answered with. The body of the market list
  is the array of coins; the body of a price chart is its array \<open>prices\<close> of pairs
  of a timestamp and a price; the body of the reasoning service is read only through
  \<open>data.candidates?.[0]?.content?.parts?.[0]?.text\<close>, and is that value. A body of
  another shape makes the program throw where it reads it, and is a rejected \<open>json\<close>.
\<close>

record world =
  fetch_markets :: "string \<Rightarrow> jsobject list response promise"
  fetch_chart :: "jsval \<Rightarrow> (jsnum \<times> jsnum) list response promise"
  fetch_gemini :: "prompt \<Rightarrow> string \<Rightarrow> jsval response promise"

section \<open>The reasoning client\<close>

text \<open>
  \<open>callGemini\<close>: one POST request; a response that is not \<open>ok\<close> throws an error
  with the status and the body; the text is taken out of the body, the fenced JSON
  block out of the text, and the block is parsed. Each \<open>throw\<close> rejects the promise
  that the function returns.
\<close>

definition callGemini :: "builtins \<Rightarrow> world \<Rightarrow> prompt \<Rightarrow> string \<Rightarrow> jsobject promise" where
  "callGemini bi w prompt apiKey =
     (case fetch_gemini w prompt apiKey of
        Rejected e \<Rightarrow> Rejected e
      | Fulfilled response \<Rightarrow>
          if \<not> ok response then
            (case text_of response of
               Rejected e \<Rightarrow> Rejected e
             | Fulfilled errorText \<Rightarrow>
                 Rejected (''Gemini API error ('' @ decimal (status response) @ ''): '' @ errorText))
          else
            (case json_of response of
               Rejected e \<Rightarrow> Rejected e
             | Fulfilled txt \<Rightarrow>
                 if \<not> truthy txt then Rejected ''No response text from Gemini.''
                 else
                   (case txt of
                      JStr s \<Rightarrow>
                        (case match_json_block bi s of
                           None \<Rightarrow>
                             Rejected ''Gemini response did not contain a valid JSON code block.''
                         | Some block \<Rightarrow>
                             (case JSON_parse bi block of
                                Inl m \<Rightarrow> Rejected (''Failed to parse JSON from Gemini: '' @ m)
                              | Inr analysis \<Rightarrow> Fulfilled analysis))
                    | _ \<Rightarrow> Rejected (TypeError_message bi txt ''match''))))"

section \<open>The analysis of one candidate\<close>

datatype side = Long | Short

text \<open>
  The object that \<open>analyzeCandidate\<close> returns for a valid setup; each property
  has the prefix \<open>t_\<close> here.
\<close>

record trade =
  t_name :: jsval
  t_symbol :: string
  t_entry :: string
  t_sl :: string
  t_tp :: string
  t_lotSize :: string
  t_rr :: jsnum
  t_notes :: jsval
  t_direction :: side

text \<open>
  The requests that a run sends, in the order they are sent: the chart of a coin (the
  time range of the request is not represented) and a prompt with the key.
\<close>

datatype request = ChartRequest jsval | GeminiRequest prompt string

text \<open>
  The method calls in the template literal: \<open>toUpperCase\<close> exists on strings only and
  \<open>toFixed\<close> on numbers only; on any other value the call throws a \<open>TypeError\<close>.
\<close>

fun call_toUpperCase :: "builtins \<Rightarrow> jsval \<Rightarrow> string + string" where
  "call_toUpperCase bi (JStr s) = Inr (String_toUpperCase bi s)"
| "call_toUpperCase bi v = Inl (TypeError_message bi v ''toUpperCase'')"

fun call_toFixed :: "builtins \<Rightarrow> jsval \<Rightarrow> nat \<Rightarrow> string + string" where
  "call_toFixed bi (JNum x) f = Inr (toFixed bi f x)"
| "call_toFixed bi v f = Inl (TypeError_message bi v ''toFixed'')"

text \<open>
  The template literal of the prompt: its holes are evaluated from left to right, and
  \<open>closes.slice(-100)\<close> is the last 100 closes, or all of them when there are fewer.
\<close>

definition build_prompt ::
  "builtins \<Rightarrow> jsobject \<Rightarrow> direction \<Rightarrow> jsnum list \<Rightarrow> string + prompt" where
  "build_prompt bi coin direction closes =
     (case call_toUpperCase bi (coin ''symbol'') of
        Inl e \<Rightarrow> Inl e
      | Inr upper \<Rightarrow>
          (case call_toFixed bi (coin ''current_price'') 5 of
             Inl e \<Rightarrow> Inl e
           | Inr price \<Rightarrow>
               (case call_toFixed bi (coin ''price_change_percentage_24h'') 2 of
                  Inl e \<Rightarrow> Inl e
                | Inr momentum \<Rightarrow>
                    Inr \<lparr>p_direction = direction, p_symbol = upper, p_current_price = price,
                         p_momentum = momentum,
                         p_closes = drop (length closes - 100) closes\<rparr>)))"

text \<open>
  \<open>analyzeCandidate\<close>, with the requests it has sent. \<open>Fulfilled None\<close> is the
  promise fulfilled with \<open>null\<close>, \<open>Fulfilled (Some t)\<close> the one fulfilled with a trade
  and \<open>Rejected e\<close> the one rejected by an error with message \<open>e\<close>.
\<close>

definition analyzeCandidate ::
  "builtins \<Rightarrow> world \<Rightarrow> inputs \<Rightarrow> jsobject \<Rightarrow> direction \<Rightarrow> string
     \<Rightarrow> request list \<times> trade option promise" where
  "analyzeCandidate bi w ui coin direction apiKey =
     (let riskAmount = parseFloat_text bi (riskAmountInput ui);
          rrRatio = parseFloat_text bi (rrRatioInput ui);
          chart = ChartRequest (coin ''id'')
      in case fetch_chart w (coin ''id'') of
           Rejected e \<Rightarrow> ([chart], Rejected e)
         | Fulfilled chartRes \<Rightarrow>
             if \<not> ok chartRes then ([chart], Fulfilled None)
             else
               (case json_of chartRes of
                  Rejected e \<Rightarrow> ([chart], Rejected e)
                | Fulfilled prices \<Rightarrow>
                    let closes = map snd prices
                    in if length closes < 50 then ([chart], Fulfilled None)
                       else
                         (case build_prompt bi coin direction closes of
                            Inl e \<Rightarrow> ([chart], Rejected e)
                          | Inr prompt \<Rightarrow>
                              (case callGemini bi w prompt apiKey of
                                 Rejected e \<Rightarrow> ([chart, GeminiRequest prompt apiKey], Rejected e)
                               | Fulfilled analysis \<Rightarrow>
                                   ([chart, GeminiRequest prompt apiKey],
                                    if truthy (analysis ''isValid'') \<and> truthy (analysis ''entry'')
                                         \<and> truthy (analysis ''stopLoss'')
                                    then
                                      let entry = parseFloat bi (analysis ''entry'');
                                          sl = parseFloat bi (analysis ''stopLoss'')
                                      in if isNaN entry \<or> isNaN sl \<or> eq_zero entry \<or> eq_zero sl
                                         then Fulfilled None
                                         else
                                           let slDistance = js_abs (js_sub entry sl);
                                               tp = (if direction = bullish
                                                     then js_add entry (js_mul slDistance rrRatio)
                                                     else js_sub entry (js_mul slDistance rrRatio));
                                               riskPct = js_div slDistance entry;
                                               positionUSD = js_div riskAmount riskPct;
                                               lotSize = toFixed bi 4 (js_div positionUSD entry)
                                           in (case call_toUpperCase bi (coin ''symbol'') of
                                                 Inl e \<Rightarrow> Rejected e
                                               | Inr upper \<Rightarrow>
                                                   Fulfilled (Some
                                                     \<lparr>t_name = coin ''name'',
                                                      t_symbol = upper,
                                                      t_entry = toFixed bi 5 entry,
                                                      t_sl = toFixed bi 5 sl,
                                                      t_tp = toFixed bi 5 tp,
                                                      t_lotSize = lotSize,
                                                      t_rr = rrRatio,
                                                      t_notes = analysis ''rationale'',
                                                      t_direction =
                                                        (if direction = bullish then Long else Short)\<rparr>))
                                    else Fulfilled None)))))"

section \<open>The click handler\<close>

text \<open>
  What the handler leaves on the page: an alert, or the children of the output element
  when it returns (log lines, error lines, and for each side a header with the count
  and a container of cards).
\<close>

datatype element =
  Alert string
| LogLine string
| ErrorLine string
| SummaryHeader side nat
| TradesContainer "trade list"

definition logMessage :: "string \<Rightarrow> string \<Rightarrow> element" where
  "logMessage message type = (if type = ''error'' then ErrorLine message else LogLine message)"

text \<open>
  Step 4 of the handler, on the results of \<open>Promise.allSettled\<close>, which are in the order
  of the promises: the trades of the fulfilled promises that are not \<open>null\<close>, by side,
  then a line when there is none, then the messages of the rejected promises.
\<close>

definition validTrades :: "trade option promise list \<Rightarrow> trade list" where
  "validTrades results =
     concat (map (\<lambda>r. case r of Fulfilled (Some t) \<Rightarrow> [t] | _ \<Rightarrow> []) results)"

definition rejections :: "trade option promise list \<Rightarrow> string list" where
  "rejections results = concat (map (\<lambda>r. case r of Rejected e \<Rightarrow> [e] | _ \<Rightarrow> []) results)"

definition display :: "trade option promise list \<Rightarrow> element list" where
  "display results =
     (let longTrades = filter (\<lambda>t. t_direction t = Long) (validTrades results);
          shortTrades = filter (\<lambda>t. t_direction t = Short) (validTrades results)
      in (if 0 < length longTrades
          then [SummaryHeader Long (length longTrades), TradesContainer longTrades] else []) @
         (if 0 < length shortTrades
          then [SummaryHeader Short (length shortTrades), TradesContainer shortTrades] else []) @
         (if length (validTrades results) = 0
          then [logMessage
                 ''Analysis complete. No high-confluence ICT setups found based on the current rules.''
                 ''log'']
          else []) @
         map (\<lambda>e. logMessage e ''error'') (rejections results))"

text \<open>
  The handler: without a key it alerts and stops; an error of the market request is
  caught and logged; without candidates it logs that and stops; otherwise every
  candidate is analysed and the results are displayed. The saved settings, the loading
  indicator and its counter of finished analyses are not represented.
\<close>

definition runAnalysis :: "builtins \<Rightarrow> world \<Rightarrow> inputs \<Rightarrow> element list" where
  "runAnalysis bi w ui =
     (let GEMINI_API_KEY = String_trim bi (geminiKeyInput ui);
          global = (\<lambda>e. logMessage (''A global error occurred: '' @ e) ''error'')
      in if GEMINI_API_KEY = [] then [Alert ''Please enter your Gemini API key!'']
         else
           (case fetch_markets w (coinCountInput ui) of
              Rejected e \<Rightarrow> [global e]
            | Fulfilled marketsRes \<Rightarrow>
                if \<not> ok marketsRes
                then [global (''CoinGecko API error ('' @ decimal (status marketsRes) @ '')'')]
                else
                  (case json_of marketsRes of
                     Rejected e \<Rightarrow> [global e]
                   | Fulfilled topCryptos \<Rightarrow>
                       let threshold = parseFloat_text bi (momentumThresholdInput ui);
                           candidates = allCandidates bi threshold topCryptos
                       in if length candidates = 0
                          then [logMessage
                                 ''No coins found matching the momentum threshold. Try widening your criteria.''
                                 ''error'']
                          else display
                                 (map (\<lambda>(coin, direction).
                                         snd (analyzeCandidate bi w ui coin direction GEMINI_API_KEY))
                                    candidates))))"

section \<open>Notions used in the statements\<close>

text \<open>Strict equality \<open>===\<close> on numbers: \<open>NaN\<close> equals nothing, the two zeros are equal.\<close>

definition js_eq :: "jsnum \<Rightarrow> jsnum \<Rightarrow> bool" where
  "js_eq a b = (a \<noteq> NaN \<and> b \<noteq> NaN \<and> (a = b \<or> is_zero a \<and> is_zero b))"

text \<open>
  A decimal numeral with exactly \<open>f\<close> fraction digits: an optional minus sign, at least
  one digit, a point, \<open>f\<close> digits.
\<close>

definition is_digit :: "char \<Rightarrow> bool" where
  "is_digit c = (c \<in> set ''0123456789'')"

definition decimal_places :: "nat \<Rightarrow> string \<Rightarrow> bool" where
  "decimal_places f s =
     (let u = (if s \<noteq> [] \<and> hd s = CHR ''-'' then tl s else s); k = length u - f
      in f + 2 \<le> length u \<and> list_all is_digit (take (k - 1) u) \<and>
         u ! (k - 1) = CHR ''.'' \<and> list_all is_digit (drop k u))"

text \<open>
  A numeral of a strictly positive amount: digits and a point only, with a digit that
  is not zero.
\<close>

definition positive_decimal :: "string \<Rightarrow> bool" where
  "positive_decimal s =
     (list_all (\<lambda>c. is_digit c \<or> c = CHR ''.'') s \<and> list_ex (\<lambda>c. c \<in> set ''123456789'') s)"

text \<open>
  The number that a decimal numeral denotes: an optional minus sign, digits, and the
  digits after the point divided by the power of ten of their count.
\<close>

definition digit_value :: "char \<Rightarrow> nat" where
  "digit_value c = length (takeWhile (\<lambda>d. d \<noteq> c) ''0123456789'')"

definition read_digits :: "string \<Rightarrow> nat" where
  "read_digits ds = foldl (\<lambda>n c. 10 * n + digit_value c) 0 ds"

definition read_decimal :: "string \<Rightarrow> real" where
  "read_decimal s =
     (let u = (if s \<noteq> [] \<and> hd s = CHR ''-'' then tl s else s);
          whole = takeWhile (\<lambda>c. c \<noteq> CHR ''.'') u;
          frac = drop 1 (dropWhile (\<lambda>c. c \<noteq> CHR ''.'') u);
          v = real (read_digits (whole @ frac)) / 10 ^ length frac
      in if s \<noteq> [] \<and> hd s = CHR ''-'' then - v else v)"

text \<open>
  A magnitude between \<open>10\<^sup>-\<^sup>9\<close> and \<open>10\<^sup>9\<close>, which prices, ratios and risk amounts
  have; and a magnitude between two bounds.
\<close>

definition moderate :: "real \<Rightarrow> bool" where
  "moderate x = (1 / 10 ^ 9 \<le> \<bar>x\<bar> \<and> \<bar>x\<bar> \<le> 10 ^ 9)"

definition between :: "real \<Rightarrow> real \<Rightarrow> real \<Rightarrow> bool" where
  "between l u x = (l \<le> \<bar>x\<bar> \<and> \<bar>x\<bar> \<le> u)"

text \<open>
  The condition of lines 266 and 270 of \<open>analyzeCandidate\<close> under which it goes on to
  build a trade, and the trade of lines 273 to 289, for the prompt that was sent.
\<close>

definition accepted :: "builtins \<Rightarrow> jsobject \<Rightarrow> bool" where
  "accepted bi analysis =
     (truthy (analysis ''isValid'') \<and> truthy (analysis ''entry'') \<and> truthy (analysis ''stopLoss'') \<and>
      \<not> isNaN (parseFloat bi (analysis ''entry'')) \<and> \<not> isNaN (parseFloat bi (analysis ''stopLoss'')) \<and>
      \<not> eq_zero (parseFloat bi (analysis ''entry'')) \<and> \<not> eq_zero (parseFloat bi (analysis ''stopLoss'')))"

definition take_profit :: "direction \<Rightarrow> jsnum \<Rightarrow> jsnum \<Rightarrow> jsnum \<Rightarrow> jsnum" where
  "take_profit direction e s rrRatio =
     (if direction = bullish then js_add e (js_mul (js_abs (js_sub e s)) rrRatio)
      else js_sub e (js_mul (js_abs (js_sub e s)) rrRatio))"

definition lot_size :: "jsnum \<Rightarrow> jsnum \<Rightarrow> jsnum \<Rightarrow> jsnum" where
  "lot_size e s riskAmount = js_div (js_div riskAmount (js_div (js_abs (js_sub e s)) e)) e"

definition trade_for :: "builtins \<Rightarrow> inputs \<Rightarrow> jsobject \<Rightarrow> direction \<Rightarrow> prompt \<Rightarrow> jsobject \<Rightarrow> trade" where
  "trade_for bi ui coin direction p analysis =
     \<lparr>t_name = coin ''name'', t_symbol = p_symbol p,
      t_entry = toFixed bi 5 (parseFloat bi (analysis ''entry'')),
      t_sl = toFixed bi 5 (parseFloat bi (analysis ''stopLoss'')),
      t_tp = toFixed bi 5
        (take_profit direction (parseFloat bi (analysis ''entry''))
           (parseFloat bi (analysis ''stopLoss'')) (parseFloat_text bi (rrRatioInput ui))),
      t_lotSize = toFixed bi 4
        (lot_size (parseFloat bi (analysis ''entry'')) (parseFloat bi (analysis ''stopLoss''))
           (parseFloat_text bi (riskAmountInput ui))),
      t_rr = parseFloat_text bi (rrRatioInput ui),
      t_notes = analysis ''rationale'',
      t_direction = (if direction = bullish then Long else Short)\<rparr>"

section \<open>Sample runs\<close>

text \<open>
  The coin of the end-to-end scenarios, the default settings with a key, and verdicts
  of the shape the prompt asks for.
\<close>

definition demo_coin :: jsobject where
  "demo_coin = (\<lambda>k. JUndefined)
     (''id'' := JStr ''x'', ''symbol'' := JStr ''x'', ''name'' := JStr ''X'',
      ''current_price'' := JNum (Fin 100), ''price_change_percentage_24h'' := JNum (Fin 5))"

definition coin_moving :: "jsval \<Rightarrow> jsobject" where
  "coin_moving change = demo_coin(''price_change_percentage_24h'' := change)"

definition demo_inputs :: inputs where
  "demo_inputs = \<lparr>geminiKeyInput = ''key'', riskAmountInput = ''10'', rrRatioInput = ''3'',
     coinCountInput = ''50'', momentumThresholdInput = ''3''\<rparr>"

definition demo_verdict :: "real \<Rightarrow> real \<Rightarrow> jsobject" where
  "demo_verdict e s = (\<lambda>k. JUndefined)
     (''isValid'' := JBool True, ''entry'' := JNum (Fin e), ''stopLoss'' := JNum (Fin s))"

definition fenced :: "string \<Rightarrow> string" where
  "fenced block = ''```json '' @ block @ '' ```''"

definition block_95 :: string where
  \<open>block_95 = ''{"isValid": true, "entry": 100, "stopLoss": 95}''\<close>

definition block_100 :: string where
  \<open>block_100 = ''{"isValid": true, "entry": 100, "stopLoss": 100}''\<close>

definition block_150 :: string where
  \<open>block_150 = ''{"isValid": true, "entry": 100, "stopLoss": 150}''\<close>

definition block_364 :: string where
  \<open>block_364 = ''{"isValid": true, "entry": 364, "stopLoss": 300}''\<close>

definition block_300 :: string where
  \<open>block_300 = ''{"isValid": true, "entry": 300, "stopLoss": 364}''\<close>

definition block_0 :: string where
  \<open>block_0 = ''{"isValid": true, "entry": 0, "stopLoss": 95}''\<close>

definition block_bad :: string where
  \<open>block_bad = ''{"isValid": tru}''\<close>

text \<open>
  \<open>toUpperCase\<close> and \<open>trim\<close> on texts of ASCII characters, which is what the runs
  contain.
\<close>

definition upper_char :: "char \<Rightarrow> char" where
  "upper_char c =
     (case map_of (zip ''abcdefghijklmnopqrstuvwxyz'' ''ABCDEFGHIJKLMNOPQRSTUVWXYZ'') c of
        Some u \<Rightarrow> u | None \<Rightarrow> c)"

definition ascii_toUpperCase :: "string \<Rightarrow> string" where
  "ascii_toUpperCase s = map upper_char s"

definition is_space :: "char \<Rightarrow> bool" where
  "is_space c = (c \<in> set [CHR 0x09, CHR 0x0A, CHR 0x0B, CHR 0x0C, CHR 0x0D, CHR '' ''])"

definition ascii_trim :: "string \<Rightarrow> string" where
  "ascii_trim s = rev (dropWhile is_space (rev (dropWhile is_space s)))"

text \<open>
  The runtime functions on the texts of these runs: what \<open>parseFloat\<close> gives for the
  two settings, the fenced block of each reply, and the object each block parses to.
  A text outside these tables does not occur in the runs.
\<close>

definition demo_builtins :: builtins where
  "demo_builtins =
     \<lparr>StringToNumber = (\<lambda>s. NaN),
      parseFloat_text = (\<lambda>s. if s = ''10'' then Fin 10 else if s = ''3'' then Fin 3 else NaN),
      Number_toString = (\<lambda>x. []),
      match_json_block =
        map_of (map (\<lambda>b. (fenced b, b))
          [block_95, block_100, block_150, block_364, block_300, block_0, block_bad]),
      JSON_parse =
        (\<lambda>s. case map_of [(block_95, demo_verdict 100 95), (block_100, demo_verdict 100 100),
                           (block_150, demo_verdict 100 150), (block_364, demo_verdict 364 300),
                           (block_300, demo_verdict 300 364), (block_0, demo_verdict 0 95)] s of
               Some v \<Rightarrow> Inr v
             | None \<Rightarrow> Inl ''Unexpected token } in JSON at position 15''),
      TypeError_message = (\<lambda>v m. m @ '' is not a function''),
      String_trim = ascii_trim,
      String_toUpperCase = ascii_toUpperCase\<rparr>"

text \<open>A response with status 200 and a body, and one with an error status.\<close>

definition served :: "'a \<Rightarrow> 'a response promise" where
  "served body =
     Fulfilled \<lparr>ok = True, status = 200, text_of = Fulfilled [], json_of = Fulfilled body\<rparr>"

definition refused :: "nat \<Rightarrow> string \<Rightarrow> 'a response promise" where
  "refused code body =
     Fulfilled \<lparr>ok = False, status = code, text_of = Fulfilled body,
                json_of = Rejected ''Unexpected token''\<rparr>"

text \<open>
  A world in which the market list holds the one coin, its chart has \<open>n\<close> prices of
  100, and the reasoning service answers with a given response.
\<close>

definition demo_world :: "nat \<Rightarrow> jsval response promise \<Rightarrow> world" where
  "demo_world n answer =
     \<lparr>fetch_markets = (\<lambda>count. served [demo_coin]),
      fetch_chart = (\<lambda>i. served (replicate n (Fin 0, Fin 100))),
      fetch_gemini = (\<lambda>p key. answer)\<rparr>"

definition demo_prompt :: "direction \<Rightarrow> prompt" where
  "demo_prompt d = \<lparr>p_direction = d, p_symbol = ''X'', p_current_price = ''100.00000'',
     p_momentum = ''5.00'', p_closes = replicate 50 (Fin 100)\<rparr>"

section \<open>Comparisons\<close>

lemma js_lt_NaN_right: "js_lt a NaN = False"
  by (cases a) simp_all

lemma js_lt_irrefl: "js_lt a a = False"
  by (cases a) simp_all

lemma js_lt_eq_left: "js_eq a b \<Longrightarrow> js_lt a c = js_lt b c"
  by (cases a; cases b; cases c) (auto simp: js_eq_def)

lemma js_lt_eq_right: "js_eq a b \<Longrightarrow> js_lt c a = js_lt c b"
  by (cases a; cases b; cases c) (auto simp: js_eq_def)

lemma js_lt_neg_self: "\<not> js_lt t (Fin 0) \<Longrightarrow> js_lt t (js_neg t) = False"
  by (cases t) (auto split: if_splits)

lemma not_above_and_below:
  "\<not> js_lt t (Fin 0) \<Longrightarrow> js_lt t x \<Longrightarrow> js_lt x (js_neg t) \<Longrightarrow> False"
  by (cases t; cases x) (auto split: if_splits)

section \<open>Candidate selection\<close>

lemma bullish_in_allCandidates:
  "(c, bullish) \<in> set (allCandidates bi t cs) \<longleftrightarrow>
     c \<in> set cs \<and> js_gt (toNumber bi (c ''price_change_percentage_24h'')) t"
  by (auto simp: allCandidates_def bullishCandidates_def bearishCandidates_def)

lemma bearish_in_allCandidates:
  "(c, bearish) \<in> set (allCandidates bi t cs) \<longleftrightarrow>
     c \<in> set cs \<and> js_lt (toNumber bi (c ''price_change_percentage_24h'')) (js_neg t)"
  by (auto simp: allCandidates_def bullishCandidates_def bearishCandidates_def)

lemma in_allCandidates:
  "(c, d) \<in> set (allCandidates bi t cs) \<longleftrightarrow>
     c \<in> set cs \<and>
     (if d = bullish then js_gt (toNumber bi (c ''price_change_percentage_24h'')) t
      else js_lt (toNumber bi (c ''price_change_percentage_24h'')) (js_neg t))"
  by (cases d) (simp_all add: bullish_in_allCandidates bearish_in_allCandidates)

lemma demo_coin_fields:
  "demo_coin ''id'' = JStr ''x''"
  "demo_coin ''symbol'' = JStr ''x''"
  "demo_coin ''name'' = JStr ''X''"
  "demo_coin ''current_price'' = JNum (Fin 100)"
  "demo_coin ''price_change_percentage_24h'' = JNum (Fin 5)"
  by (simp_all add: demo_coin_def)

lemma coin_moving_change: "coin_moving v ''price_change_percentage_24h'' = v"
  by (simp add: coin_moving_def)

text \<open>
  Claim C3, as amended. A coin is a bullish candidate exactly when its momentum is above
  the threshold and a bearish one exactly when it is below the negated threshold. When
  the threshold is not negative, a coin whose momentum equals the threshold or the
  negated threshold is no candidate, in either direction.
\<close>

theorem threshold_boundary_exclusive:
  "((c, bullish) \<in> set (allCandidates bi t cs) \<longleftrightarrow>
      c \<in> set cs \<and> js_gt (toNumber bi (c ''price_change_percentage_24h'')) t) \<and>
   ((c, bearish) \<in> set (allCandidates bi t cs) \<longleftrightarrow>
      c \<in> set cs \<and> js_lt (toNumber bi (c ''price_change_percentage_24h'')) (js_neg t)) \<and>
   (\<not> js_lt t (Fin 0) \<longrightarrow>
      js_eq (toNumber bi (c ''price_change_percentage_24h'')) t \<or>
      js_eq (toNumber bi (c ''price_change_percentage_24h'')) (js_neg t) \<longrightarrow>
      (c, d) \<notin> set (allCandidates bi t cs))"
proof -
  let ?x = "toNumber bi (c ''price_change_percentage_24h'')"
  have edge: "(c, d) \<notin> set (allCandidates bi t cs)"
    if nonneg: "\<not> js_lt t (Fin 0)" and at: "js_eq ?x t \<or> js_eq ?x (js_neg t)"
  proof -
    from at have "\<not> js_lt t ?x"
    proof
      assume "js_eq ?x t"
      then show ?thesis by (simp add: js_lt_eq_right [of ?x t] js_lt_irrefl)
    next
      assume "js_eq ?x (js_neg t)"
      then show ?thesis using nonneg
        by (simp add: js_lt_eq_right [of ?x "js_neg t"] js_lt_neg_self)
    qed
    moreover from at have "\<not> js_lt ?x (js_neg t)"
    proof
      assume "js_eq ?x t"
      then show ?thesis using nonneg
        by (simp add: js_lt_eq_left [of ?x t] js_lt_neg_self)
    next
      assume "js_eq ?x (js_neg t)"
      then show ?thesis by (simp add: js_lt_eq_left [of ?x "js_neg t"] js_lt_irrefl)
    qed
    ultimately show ?thesis
      by (simp add: in_allCandidates js_gt_def)
  qed
  show ?thesis
    using edge by (simp add: bullish_in_allCandidates bearish_in_allCandidates)
qed

text \<open>
  Claim C3, an instance: with the threshold 3, the coins that moved by 3 and by -3
  are not selected.
\<close>

theorem threshold_boundary_exclusive_witness:
  "\<not> js_lt (Fin 3) (Fin 0) \<and>
   js_eq (toNumber demo_builtins (coin_moving (JNum (Fin 3)) ''price_change_percentage_24h'')) (Fin 3) \<and>
   js_eq (toNumber demo_builtins (coin_moving (JNum (Fin (- 3))) ''price_change_percentage_24h''))
     (js_neg (Fin 3)) \<and>
   (coin_moving (JNum (Fin 3)), bullish) \<notin> set (allCandidates demo_builtins (Fin 3)
      [coin_moving (JNum (Fin 3)), coin_moving (JNum (Fin (- 3)))]) \<and>
   (coin_moving (JNum (Fin (- 3))), bearish) \<notin> set (allCandidates demo_builtins (Fin 3)
      [coin_moving (JNum (Fin 3)), coin_moving (JNum (Fin (- 3)))])"
  using threshold_boundary_exclusive [of "coin_moving (JNum (Fin 3))" demo_builtins "Fin 3"
      "[coin_moving (JNum (Fin 3)), coin_moving (JNum (Fin (- 3)))]" bullish]
    threshold_boundary_exclusive [of "coin_moving (JNum (Fin (- 3)))" demo_builtins "Fin 3"
      "[coin_moving (JNum (Fin 3)), coin_moving (JNum (Fin (- 3)))]" bearish]
  by (simp add: coin_moving_change js_eq_def js_gt_def)

text \<open>
  Claim C3 as it was stated, for every threshold, fails: with the threshold -3, a coin
  that moved by 3, which is the negated threshold, is a bullish candidate.
\<close>

theorem negative_threshold_boundary_selected:
  "js_eq (toNumber demo_builtins (coin_moving (JNum (Fin 3)) ''price_change_percentage_24h''))
     (js_neg (Fin (- 3))) \<and>
   allCandidates demo_builtins (Fin (- 3)) [coin_moving (JNum (Fin 3))] =
     [(coin_moving (JNum (Fin 3)), bullish)]"
  by (simp add: allCandidates_def bullishCandidates_def bearishCandidates_def coin_moving_change
      js_eq_def js_gt_def)

lemma count_list_filter:
  "count_list (filter P xs) x = (if P x then count_list xs x else 0)"
  by (induction xs) auto

lemma count_list_tagged: "count_list (map fst (map (\<lambda>c. (c, d)) xs)) x = count_list xs x"
  by (simp add: comp_def)

text \<open>
  Claim C4, as amended. The candidate list is the bullish coins in the order of the
  market list followed by the bearish coins in that order. When the threshold is not
  negative, no coin is in the candidate list more often than in the market list; so
  when the market list has no coin twice, neither has the candidate list.
\<close>

theorem candidates_order_and_uniqueness:
  "allCandidates bi t cs =
     map (\<lambda>c. (c, bullish))
       (filter (\<lambda>c. js_gt (toNumber bi (c ''price_change_percentage_24h'')) t) cs) @
     map (\<lambda>c. (c, bearish))
       (filter (\<lambda>c. js_lt (toNumber bi (c ''price_change_percentage_24h'')) (js_neg t)) cs) \<and>
   (\<not> js_lt t (Fin 0) \<longrightarrow>
      count_list (map fst (allCandidates bi t cs)) c \<le> count_list cs c) \<and>
   (\<not> js_lt t (Fin 0) \<longrightarrow> distinct cs \<longrightarrow> distinct (map fst (allCandidates bi t cs)))"
proof -
  let ?x = "\<lambda>c. toNumber bi (c ''price_change_percentage_24h'')"
  have once: "count_list (map fst (allCandidates bi t cs)) c \<le> count_list cs c"
    if nonneg: "\<not> js_lt t (Fin 0)"
  proof -
    have "\<not> (js_gt (?x c) t \<and> js_lt (?x c) (js_neg t))"
      using nonneg not_above_and_below [of t "?x c"] by (auto simp: js_gt_def)
    then show ?thesis
      by (auto simp: allCandidates_def bullishCandidates_def bearishCandidates_def comp_def
          count_list_filter)
  qed
  have "distinct (map fst (allCandidates bi t cs))"
    if nonneg: "\<not> js_lt t (Fin 0)" and d: "distinct cs"
  proof -
    have "set (bullishCandidates bi t cs) \<inter> set (bearishCandidates bi t cs) = {}"
      using nonneg
      by (auto simp: bullishCandidates_def bearishCandidates_def js_gt_def
          dest: not_above_and_below)
    moreover have "distinct (bullishCandidates bi t cs)" "distinct (bearishCandidates bi t cs)"
      using d by (simp_all add: bullishCandidates_def bearishCandidates_def)
    ultimately show ?thesis
      by (simp add: allCandidates_def comp_def)
  qed
  with once show ?thesis
    by (simp add: allCandidates_def bullishCandidates_def bearishCandidates_def)
qed

text \<open>Claim C4, an instance: with the threshold 3 and two coins that moved by 5 and -4.\<close>

theorem candidates_order_and_uniqueness_witness:
  "\<not> js_lt (Fin 3) (Fin 0) \<and> distinct [coin_moving (JNum (Fin 5)), coin_moving (JNum (Fin (- 4)))] \<and>
   distinct (map fst (allCandidates demo_builtins (Fin 3)
     [coin_moving (JNum (Fin 5)), coin_moving (JNum (Fin (- 4)))])) \<and>
   count_list (map fst (allCandidates demo_builtins (Fin 3)
     [coin_moving (JNum (Fin 5)), coin_moving (JNum (Fin (- 4)))])) (coin_moving (JNum (Fin 5))) \<le> 1"
proof -
  have ne: "coin_moving (JNum (Fin 5)) \<noteq> coin_moving (JNum (Fin (- 4)))"
    by (auto simp: coin_moving_def dest: fun_upd_eqD)
  then have d: "distinct [coin_moving (JNum (Fin 5)), coin_moving (JNum (Fin (- 4)))]"
    by simp
  have n: "\<not> js_lt (Fin 3) (Fin 0)" by simp
  have c: "count_list [coin_moving (JNum (Fin 5)), coin_moving (JNum (Fin (- 4)))]
      (coin_moving (JNum (Fin 5))) = 1"
    using ne by auto
  show ?thesis
    using candidates_order_and_uniqueness [of demo_builtins "Fin 3"
        "[coin_moving (JNum (Fin 5)), coin_moving (JNum (Fin (- 4)))]" "coin_moving (JNum (Fin 5))"]
      d n c
    by auto
qed

text \<open>
  Claim C4 as it was stated, for every threshold, fails: with the threshold -1, a coin
  that did not move is above -1 and below 1, and the one coin of the market list is in
  the candidate list twice.
\<close>

theorem negative_threshold_selects_twice:
  "distinct [coin_moving (JNum (Fin 0))] \<and>
   count_list [coin_moving (JNum (Fin 0))] (coin_moving (JNum (Fin 0))) = 1 \<and>
   map fst (allCandidates demo_builtins (Fin (- 1)) [coin_moving (JNum (Fin 0))]) =
     [coin_moving (JNum (Fin 0)), coin_moving (JNum (Fin 0))]"
  by (simp add: allCandidates_def bullishCandidates_def bearishCandidates_def coin_moving_change
      js_gt_def)

text \<open>
  Claim C10. A coin whose momentum is absent or \<open>NaN\<close>, or converts to \<open>NaN\<close>, is
  above no threshold and below no negated threshold, and is no candidate in either
  direction.
\<close>

theorem non_numeric_momentum_not_selected:
  assumes "c ''price_change_percentage_24h'' = JUndefined \<or>
           c ''price_change_percentage_24h'' = JNum NaN \<or>
           toNumber bi (c ''price_change_percentage_24h'') = NaN"
  shows "\<not> js_gt (toNumber bi (c ''price_change_percentage_24h'')) threshold \<and>
         \<not> js_lt (toNumber bi (c ''price_change_percentage_24h'')) (js_neg threshold) \<and>
         (c, d) \<notin> set (allCandidates bi threshold topCryptos)"
proof -
  from assms have "toNumber bi (c ''price_change_percentage_24h'') = NaN"
    by auto
  then show ?thesis
    by (simp add: in_allCandidates js_gt_def js_lt_NaN_right)
qed

text \<open>Claim C10, an instance: a coin without the property and one with \<open>NaN\<close>.\<close>

theorem non_numeric_momentum_not_selected_witness:
  "coin_moving JUndefined ''price_change_percentage_24h'' = JUndefined \<and>
   coin_moving (JNum NaN) ''price_change_percentage_24h'' = JNum NaN \<and>
   (coin_moving JUndefined, bullish) \<notin> set (allCandidates demo_builtins (Fin 3)
      [coin_moving JUndefined, coin_moving (JNum NaN)]) \<and>
   (coin_moving (JNum NaN), bearish) \<notin> set (allCandidates demo_builtins (Fin 3)
      [coin_moving JUndefined, coin_moving (JNum NaN)])"
  using non_numeric_momentum_not_selected [of "coin_moving JUndefined" demo_builtins "Fin 3" bullish
      "[coin_moving JUndefined, coin_moving (JNum NaN)]"]
    non_numeric_momentum_not_selected [of "coin_moving (JNum NaN)" demo_builtins "Fin 3" bearish
      "[coin_moving JUndefined, coin_moving (JNum NaN)]"]
  by (simp add: coin_moving_change)

section \<open>Printing with a fixed number of decimals\<close>

lemma digit_char_is_digit:
  assumes "d < 10"
  shows "is_digit (digit_char d)"
proof -
  from assms have "d = 0 \<or> d = 1 \<or> d = 2 \<or> d = 3 \<or> d = 4 \<or> d = 5 \<or> d = 6 \<or> d = 7 \<or> d = 8 \<or> d = 9"
    by arith
  then show ?thesis
    by (auto simp: digit_char_def is_digit_def)
qed

lemma decimal_digits: "list_all is_digit (decimal n) \<and> decimal n \<noteq> []"
proof (induction n rule: decimal.induct)
  case (1 n)
  show ?case
  proof (cases "n < 10")
    case True
    then show ?thesis
      by (subst (1 2) decimal.simps) (simp add: digit_char_is_digit)
  next
    case False
    with 1 show ?thesis
      by (subst (1 2) decimal.simps) (simp add: digit_char_is_digit)
  qed
qed

lemma minus_no_digit: "is_digit c \<Longrightarrow> c \<noteq> CHR ''-''"
  by (auto simp: is_digit_def)

lemma fixed_digits_places:
  assumes "0 < f"
  shows "decimal_places f (fixed_digits f n) \<and> hd (fixed_digits f n) \<noteq> CHR ''-''"
proof -
  define m where "m = (if length (decimal n) \<le> f
    then replicate (f + 1 - length (decimal n)) (CHR ''0'') @ decimal n else decimal n)"
  define k where "k = length m"
  have digits: "list_all is_digit m"
    using decimal_digits [of n] by (simp add: m_def is_digit_def list_all_iff)
  have len: "f + 1 \<le> k"
    by (simp add: k_def m_def)
  have fd: "fixed_digits f n = take (k - f) m @ ''.'' @ drop (k - f) m"
    using assms by (simp add: fixed_digits_def Let_def m_def k_def)
  have l: "length (fixed_digits f n) = k + 1"
    using len by (simp add: fd k_def)
  have "m \<noteq> []" using len by (auto simp: k_def)
  then obtain c cs where m: "m = c # cs" by (cases m) auto
  with digits have c: "c \<noteq> CHR ''-''" by (simp add: minus_no_digit)
  have "take (k - f) m = c # take (k - f - 1) cs"
    using len by (simp add: m take_Cons')
  then have first: "hd (fixed_digits f n) = c"
    by (simp add: fd)
  have t: "take (k + 1 - f - 1) (fixed_digits f n) = take (k - f) m"
    using len by (simp add: fd k_def)
  have d: "drop (k + 1 - f) (fixed_digits f n) = drop (k - f) m"
    using len by (simp add: fd k_def)
  have pt: "fixed_digits f n ! (k + 1 - f - 1) = CHR ''.''"
    using len by (simp add: fd k_def nth_append)
  have "list_all is_digit (take (k - f) m)" "list_all is_digit (drop (k - f) m)"
    using digits by (auto simp: list_all_iff dest: in_set_takeD in_set_dropD)
  then have "decimal_places f (fixed_digits f n)"
    using c first len l t d pt by (simp add: decimal_places_def Let_def)
  with c first show ?thesis by simp
qed

lemma decimal_places_minus:
  "decimal_places f s \<Longrightarrow> hd s \<noteq> CHR ''-'' \<Longrightarrow> decimal_places f (CHR ''-'' # s)"
  by (simp add: decimal_places_def)

lemma toFixed_places:
  assumes "0 < f" "is_finite v" "\<bar>val v\<bar> < 10 ^ 21"
  shows "decimal_places f (toFixed bi f v)"
proof (cases v)
  case NegZero
  then show ?thesis using fixed_digits_places [OF assms(1)] by simp
next
  case (Fin x)
  then show ?thesis
    using assms(3) fixed_digits_places [OF assms(1)]
    by (simp add: decimal_places_minus)
qed (use assms in simp_all)

section \<open>The analysis of one candidate\<close>

lemma build_prompt_symbol:
  "build_prompt bi coin direction closes = Inr p \<Longrightarrow>
     call_toUpperCase bi (coin ''symbol'') = Inr (p_symbol p)"
  by (auto simp: build_prompt_def split: sum.splits)


lemma analyze_sent:
  assumes "GeminiRequest p key \<in> set (fst (analyzeCandidate bi w ui coin direction apiKey))"
  shows "key = apiKey \<and> (\<exists>chartRes prices. fetch_chart w (coin ''id'') = Fulfilled chartRes \<and>
           ok chartRes \<and> json_of chartRes = Fulfilled prices \<and> 50 \<le> length prices \<and>
           build_prompt bi coin direction (map snd prices) = Inr p)"
  using assms
  by (auto simp: analyzeCandidate_def Let_def split: promise.splits sum.splits if_splits)

lemma analyze_reached:
  assumes "fetch_chart w (coin ''id'') = Fulfilled chartRes" "ok chartRes"
    "json_of chartRes = Fulfilled prices" "50 \<le> length prices"
    "build_prompt bi coin direction (map snd prices) = Inr p"
  shows "analyzeCandidate bi w ui coin direction apiKey =
     ([ChartRequest (coin ''id''), GeminiRequest p apiKey],
      case callGemini bi w p apiKey of
        Rejected e \<Rightarrow> Rejected e
      | Fulfilled analysis \<Rightarrow>
          if accepted bi analysis
          then Fulfilled (Some (trade_for bi ui coin direction p analysis))
          else Fulfilled None)"
  using assms build_prompt_symbol [OF assms(5)]
  by (simp add: analyzeCandidate_def Let_def accepted_def trade_for_def take_profit_def
      lot_size_def split: promise.splits)

lemma analyze_verdict:
  assumes "GeminiRequest p key \<in> set (fst (analyzeCandidate bi w ui coin direction apiKey))"
  shows "analyzeCandidate bi w ui coin direction apiKey =
     ([ChartRequest (coin ''id''), GeminiRequest p apiKey],
      case callGemini bi w p apiKey of
        Rejected e \<Rightarrow> Rejected e
      | Fulfilled analysis \<Rightarrow>
          if accepted bi analysis
          then Fulfilled (Some (trade_for bi ui coin direction p analysis))
          else Fulfilled None)"
  using analyze_sent [OF assms] analyze_reached by blast

lemma analyze_emitted:
  assumes "snd (analyzeCandidate bi w ui coin direction apiKey) = Fulfilled (Some t)"
  shows "\<exists>p analysis. fst (analyzeCandidate bi w ui coin direction apiKey) =
           [ChartRequest (coin ''id''), GeminiRequest p apiKey] \<and>
         callGemini bi w p apiKey = Fulfilled analysis \<and> accepted bi analysis \<and>
         t = trade_for bi ui coin direction p analysis"
proof -
  from assms obtain p where sent:
    "GeminiRequest p apiKey \<in> set (fst (analyzeCandidate bi w ui coin direction apiKey))"
    by (auto simp: analyzeCandidate_def Let_def split: promise.splits sum.splits if_splits)
  note v = analyze_verdict [OF sent]
  from assms v obtain analysis where "callGemini bi w p apiKey = Fulfilled analysis"
    by (cases "callGemini bi w p apiKey") auto
  with assms v show ?thesis
    by (auto split: if_splits)
qed

section \<open>The sample runs\<close>

lemma demo_verdict_fields:
  "demo_verdict e s ''isValid'' = JBool True"
  "demo_verdict e s ''entry'' = JNum (Fin e)"
  "demo_verdict e s ''stopLoss'' = JNum (Fin s)"
  "demo_verdict e s ''rationale'' = JUndefined"
  by (simp_all add: demo_verdict_def)

lemma demo_settings:
  "parseFloat_text demo_builtins (riskAmountInput demo_inputs) = Fin 10"
  "parseFloat_text demo_builtins (rrRatioInput demo_inputs) = Fin 3"
  "parseFloat_text demo_builtins (momentumThresholdInput demo_inputs) = Fin 3"
  "String_trim demo_builtins (geminiKeyInput demo_inputs) = ''key''"
  by (simp_all add: demo_builtins_def demo_inputs_def ascii_trim_def is_space_def)

lemma demo_upper: "String_toUpperCase demo_builtins ''x'' = ''X''"
  by (simp add: demo_builtins_def ascii_toUpperCase_def upper_char_def)

lemma demo_build_prompt:
  "build_prompt demo_builtins demo_coin d (replicate 50 (Fin 100)) = Inr (demo_prompt d)"
  by (simp add: build_prompt_def demo_coin_fields demo_prompt_def demo_upper
      fixed_digits_def decimal.simps digit_char_def)

lemma demo_parse:
  "JSON_parse demo_builtins block_95 = Inr (demo_verdict 100 95)"
  "JSON_parse demo_builtins block_100 = Inr (demo_verdict 100 100)"
  "JSON_parse demo_builtins block_150 = Inr (demo_verdict 100 150)"
  "JSON_parse demo_builtins block_364 = Inr (demo_verdict 364 300)"
  "JSON_parse demo_builtins block_300 = Inr (demo_verdict 300 364)"
  "JSON_parse demo_builtins block_0 = Inr (demo_verdict 0 95)"
  "JSON_parse demo_builtins block_bad = Inl ''Unexpected token } in JSON at position 15''"
  by (simp_all add: demo_builtins_def block_95_def block_100_def block_150_def block_364_def
      block_300_def block_0_def block_bad_def)

lemma demo_match:
  "b \<in> set [block_95, block_100, block_150, block_364, block_300, block_0, block_bad] \<Longrightarrow>
     match_json_block demo_builtins (fenced b) = Some b"
  by (auto simp: demo_builtins_def fenced_def block_95_def block_100_def block_150_def
      block_364_def block_300_def block_0_def block_bad_def)

lemma fenced_nonempty: "fenced b \<noteq> []"
  by (simp add: fenced_def)

lemma demo_callGemini:
  assumes "b \<in> set [block_95, block_100, block_150, block_364, block_300, block_0, block_bad]"
  shows "callGemini demo_builtins (demo_world n (served (JStr (fenced b)))) p key =
     (case JSON_parse demo_builtins b of
        Inl m \<Rightarrow> Rejected (''Failed to parse JSON from Gemini: '' @ m)
      | Inr analysis \<Rightarrow> Fulfilled analysis)"
  using demo_match [OF assms]
  by (simp add: callGemini_def demo_world_def served_def fenced_nonempty)

lemma demo_chart:
  "fetch_chart (demo_world n a) i =
     Fulfilled \<lparr>ok = True, status = 200, text_of = Fulfilled [],
                json_of = Fulfilled (replicate n (Fin 0, Fin 100))\<rparr>"
  by (simp add: demo_world_def served_def)

lemma demo_analyze:
  "analyzeCandidate demo_builtins (demo_world 50 a) demo_inputs demo_coin d key =
     ([ChartRequest (JStr ''x''), GeminiRequest (demo_prompt d) key],
      case callGemini demo_builtins (demo_world 50 a) (demo_prompt d) key of
        Rejected e \<Rightarrow> Rejected e
      | Fulfilled analysis \<Rightarrow>
          if accepted demo_builtins analysis
          then Fulfilled (Some (trade_for demo_builtins demo_inputs demo_coin d (demo_prompt d) analysis))
          else Fulfilled None)"
  using analyze_reached [of "demo_world 50 a" demo_coin _ "replicate 50 (Fin 0, Fin 100)"
      demo_builtins d "demo_prompt d" demo_inputs key]
  by (simp add: demo_chart demo_build_prompt demo_coin_fields)

subsection \<open>Roundings of the sample runs\<close>

lemmas q_unfold = quantum_def pow2_def
lemmas fl_unfold = fl_def pow2_def round_half_even_def

lemma quantum_values:
  "quantum 2 = - 51"
  "quantum 5 = - 50"
  "quantum 15 = - 49"
  "quantum 20 = - 48"
  "quantum 50 = - 47"
  "quantum 100 = - 46"
  "quantum 115 = - 46"
  "quantum 150 = - 45"
  "quantum (1 / 2) = - 53"
  "quantum (1 / 5) = - 55"
  "quantum (1 / 20) = - 57"
  "quantum (720575940379279360 / 3602879701896397) = - 45"
  by (simp_all add: q_unfold)

lemma run_95:
  "js_sub (Fin 100) (Fin 95) = Fin 5"
  "js_mul (Fin 5) (Fin 3) = Fin 15"
  "js_add (Fin 100) (Fin 15) = Fin 115"
  "js_div (Fin 5) (Fin 100) = Fin (3602879701896397 / 72057594037927936)"
  "js_div (Fin 10) (Fin (3602879701896397 / 72057594037927936)) = Fin 200"
  "js_div (Fin 200) (Fin 100) = Fin 2"
  by (simp_all add: js_sub_def js_add_def js_mul_def js_div_def fl_unfold quantum_values)

lemma run_100:
  "js_sub (Fin 100) (Fin 100) = Fin 0"
  "js_mul (Fin 0) (Fin 3) = Fin 0"
  "js_add (Fin 100) (Fin 0) = Fin 100"
  "js_div (Fin 0) (Fin 100) = Fin 0"
  "js_div (Fin 10) (Fin 0) = PosInf"
  "js_div PosInf (Fin 100) = PosInf"
  by (simp_all add: js_sub_def js_add_def js_mul_def js_div_def fl_unfold quantum_values
      zero_sgn_def inf_sgn_def)

lemma run_150:
  "js_sub (Fin 100) (Fin 150) = Fin (- 50)"
  "js_mul (Fin 50) (Fin 3) = Fin 150"
  "js_div (Fin 50) (Fin 100) = Fin (1 / 2)"
  "js_div (Fin 10) (Fin (1 / 2)) = Fin 20"
  "js_div (Fin 20) (Fin 100) = Fin (3602879701896397 / 18014398509481984)"
  by (simp_all add: js_sub_def js_add_def js_mul_def js_div_def fl_unfold quantum_values)

lemma abs_values: "js_abs (Fin 5) = Fin 5" "js_abs (Fin 0) = Fin 0" "js_abs (Fin (- 50)) = Fin 50"
  by simp_all

lemma printed_values:
  "fixed_digits 5 10000000 = ''100.00000''"
  "fixed_digits 5 9500000 = ''95.00000''"
  "fixed_digits 5 11500000 = ''115.00000''"
  "fixed_digits 5 15000000 = ''150.00000''"
  "fixed_digits 5 5000000 = ''50.00000''"
  "fixed_digits 4 20000 = ''2.0000''"
  "fixed_digits 4 2000 = ''0.2000''"
  by (simp_all add: fixed_digits_def decimal.simps digit_char_def)

lemma demo_accepted:
  "accepted demo_builtins (demo_verdict 100 95)"
  "accepted demo_builtins (demo_verdict 100 100)"
  "accepted demo_builtins (demo_verdict 100 150)"
  "\<not> accepted demo_builtins (demo_verdict 0 95)"
  by (simp_all add: accepted_def demo_verdict_fields isNaN_def eq_zero_def)

lemma demo_trade_95:
  "trade_for demo_builtins demo_inputs demo_coin bullish (demo_prompt bullish) (demo_verdict 100 95) =
     \<lparr>t_name = JStr ''X'', t_symbol = ''X'', t_entry = ''100.00000'', t_sl = ''95.00000'',
      t_tp = ''115.00000'', t_lotSize = ''2.0000'', t_rr = Fin 3, t_notes = JUndefined,
      t_direction = Long\<rparr>"
  by (simp add: trade_for_def take_profit_def lot_size_def demo_verdict_fields demo_settings
      demo_coin_fields demo_prompt_def run_95 abs_values printed_values)

lemma demo_trade_100:
  "trade_for demo_builtins demo_inputs demo_coin bullish (demo_prompt bullish) (demo_verdict 100 100) =
     \<lparr>t_name = JStr ''X'', t_symbol = ''X'', t_entry = ''100.00000'', t_sl = ''100.00000'',
      t_tp = ''100.00000'', t_lotSize = ''Infinity'', t_rr = Fin 3, t_notes = JUndefined,
      t_direction = Long\<rparr>"
  by (simp add: trade_for_def take_profit_def lot_size_def demo_verdict_fields demo_settings
      demo_coin_fields demo_prompt_def run_100 abs_values printed_values)

lemma demo_trade_150:
  "trade_for demo_builtins demo_inputs demo_coin bearish (demo_prompt bearish) (demo_verdict 100 150) =
     \<lparr>t_name = JStr ''X'', t_symbol = ''X'', t_entry = ''100.00000'', t_sl = ''150.00000'',
      t_tp = ''-50.00000'', t_lotSize = ''0.2000'', t_rr = Fin 3, t_notes = JUndefined,
      t_direction = Short\<rparr>"
  by (simp add: trade_for_def take_profit_def lot_size_def demo_verdict_fields demo_settings
      demo_coin_fields demo_prompt_def run_150 abs_values printed_values)

subsection \<open>Roundings of the runs with entry 364 and 300\<close>

lemma quantum_values_more:
  "quantum 64 = - 46"
  "quantum 108 = - 46"
  "quantum 192 = - 45"
  "quantum 556 = - 43"
  "quantum (16 / 91) = - 55"
  "quantum (16 / 75) = - 55"
  "quantum (5 / 32) = - 55"
  "quantum (360287970189639680 / 6334733541795863) = - 47"
  "quantum (360287970189639680 / 7686143364045647) = - 47"
  "quantum (8004444650209279 / 51228445761339392) = - 55"
  by (simp_all add: q_unfold)

lemma run_364:
  "js_sub (Fin 364) (Fin 300) = Fin 64"
  "js_mul (Fin 64) (Fin 3) = Fin 192"
  "js_add (Fin 364) (Fin 192) = Fin 556"
  "js_div (Fin 64) (Fin 364) = Fin (6334733541795863 / 36028797018963968)"
  "js_div (Fin 10) (Fin (6334733541795863 / 36028797018963968)) =
     Fin (8004444650209279 / 140737488355328)"
  "js_div (Fin (8004444650209279 / 140737488355328)) (Fin 364) =
     Fin (5629499534213119 / 36028797018963968)"
  by (simp_all add: js_sub_def js_add_def js_mul_def js_div_def fl_unfold quantum_values_more)

lemma run_300:
  "js_sub (Fin 300) (Fin 364) = Fin (- 64)"
  "js_sub (Fin 300) (Fin 192) = Fin 108"
  "js_div (Fin 64) (Fin 300) = Fin (7686143364045647 / 36028797018963968)"
  "js_div (Fin 10) (Fin (7686143364045647 / 36028797018963968)) = Fin (375 / 8)"
  "js_div (Fin (375 / 8)) (Fin 300) = Fin (5 / 32)"
  by (simp_all add: js_sub_def js_add_def js_mul_def js_div_def fl_unfold quantum_values_more)

lemma abs_values_more: "js_abs (Fin 64) = Fin 64" "js_abs (Fin (- 64)) = Fin 64"
  by simp_all

lemma printed_values_more:
  "fixed_digits 5 36400000 = ''364.00000''"
  "fixed_digits 5 30000000 = ''300.00000''"
  "fixed_digits 5 55600000 = ''556.00000''"
  "fixed_digits 5 10800000 = ''108.00000''"
  "fixed_digits 4 1562 = ''0.1562''"
  "fixed_digits 4 1563 = ''0.1563''"
  by (simp_all add: fixed_digits_def decimal.simps digit_char_def)

lemma demo_accepted_more:
  "accepted demo_builtins (demo_verdict 364 300)"
  "accepted demo_builtins (demo_verdict 300 364)"
  by (simp_all add: accepted_def demo_verdict_fields isNaN_def eq_zero_def)

lemma demo_trade_364:
  "trade_for demo_builtins demo_inputs demo_coin bullish (demo_prompt bullish) (demo_verdict 364 300) =
     \<lparr>t_name = JStr ''X'', t_symbol = ''X'', t_entry = ''364.00000'', t_sl = ''300.00000'',
      t_tp = ''556.00000'', t_lotSize = ''0.1562'', t_rr = Fin 3, t_notes = JUndefined,
      t_direction = Long\<rparr>"
  by (simp add: trade_for_def take_profit_def lot_size_def demo_verdict_fields demo_settings
      demo_coin_fields demo_prompt_def run_364 abs_values_more printed_values_more)

lemma demo_trade_300:
  "trade_for demo_builtins demo_inputs demo_coin bearish (demo_prompt bearish) (demo_verdict 300 364) =
     \<lparr>t_name = JStr ''X'', t_symbol = ''X'', t_entry = ''300.00000'', t_sl = ''364.00000'',
      t_tp = ''108.00000'', t_lotSize = ''0.1563'', t_rr = Fin 3, t_notes = JUndefined,
      t_direction = Short\<rparr>"
  by (simp add: trade_for_def take_profit_def lot_size_def demo_verdict_fields demo_settings
      demo_coin_fields demo_prompt_def run_300 run_364(2) abs_values_more printed_values_more)

lemma read_values:
  "read_decimal ''108.00000'' = 108"
  "read_decimal ''115.00000'' = 115"
  "read_decimal ''0.1563'' = 1563 / 10000"
  "read_decimal ''2.0000'' = 2"
  by (simp_all add: read_decimal_def read_digits_def digit_value_def)

section \<open>The error of a rounding\<close>

lemma pow2_powi: "pow2 k = 2 powi k"
  by (simp add: pow2_def power_int_def power_one_over inverse_eq_divide)

lemma pow2_pos: "0 < pow2 k"
  by (simp add: pow2_powi zero_less_power_int)

lemma pow2_add: "pow2 (j + k) = pow2 j * pow2 k"
  by (simp add: pow2_powi power_int_add)

lemma pow2_mono: "j \<le> k \<Longrightarrow> pow2 j \<le> pow2 k"
  by (simp add: pow2_powi power_int_increasing)

lemma pow2_strict_mono: "j < k \<Longrightarrow> pow2 j < pow2 k"
  by (simp add: pow2_powi power_int_strict_increasing)

lemma pow2_less_cancel: "pow2 j < pow2 k \<Longrightarrow> j < k"
  using pow2_mono [of k j] by (cases "j < k") auto

lemma pow2_52: "pow2 (k + 52) = pow2 k * 2 ^ 52"
  using pow2_add [of k 52] by (simp add: pow2_def [of 52])

lemma pow2_53: "pow2 (k + 53) = pow2 k * 2 ^ 53"
  using pow2_add [of k 53] by (simp add: pow2_def [of 53])

lemma refine_bounds:
  assumes "pow2 (k + 52) \<le> a" and "a < pow2 (k + 2 ^ n + 52)"
  shows "pow2 (refine a (map (\<lambda>i. 2 ^ i) (rev [0..<n])) k + 52) \<le> a \<and>
         a < pow2 (refine a (map (\<lambda>i. 2 ^ i) (rev [0..<n])) k + 53)"
  using assms
proof (induction n arbitrary: k)
  case 0
  then show ?case by (simp add: add.commute add.left_commute)
next
  case (Suc n)
  let ?k = "if pow2 (k + 2 ^ n + 52) \<le> a then k + 2 ^ n else k"
  have low: "pow2 (?k + 52) \<le> a"
    using Suc.prems(1) by simp
  have high: "a < pow2 (?k + 2 ^ n + 52)"
    using Suc.prems(2) by (auto simp: not_le algebra_simps)
  from Suc.IH [OF low high] show ?case
    by simp
qed

lemma refine_stays:
  assumes "a < pow2 (k + 53)" and "\<forall>d \<in> set ds. 1 \<le> d"
  shows "refine a ds k = k"
  using assms
proof (induction ds)
  case Nil
  then show ?case by simp
next
  case (Cons d ds)
  then have "1 \<le> d" by simp
  then have "pow2 (k + 53) \<le> pow2 (k + d + 52)"
    by (intro pow2_mono) simp
  with Cons.prems(1) have "\<not> pow2 (k + d + 52) \<le> a" by simp
  with Cons show ?case by simp
qed

lemma steps_list:
  "[1024, 512, 256, 128, 64, 32, 16, 8, 4, 2, 1 :: int] = map (\<lambda>i. 2 ^ i) (rev [0..<11])"
  by (simp add: eval_nat_numeral)

lemma quantum_normal:
  assumes "pow2 (- 1022) \<le> a" and "a < pow2 1023"
  shows "pow2 (quantum a + 52) \<le> a \<and> a < pow2 (quantum a + 53)"
proof -
  have "a < pow2 (- 1074 + 2 ^ 11 + 52)"
    using assms(2) pow2_strict_mono [of 1023 "- 1074 + 2 ^ 11 + 52"] by simp
  moreover have "pow2 (- 1074 + 52) \<le> a"
    using assms(1) by simp
  ultimately show ?thesis
    unfolding quantum_def steps_list by (rule refine_bounds [rotated])
qed

lemma quantum_subnormal:
  assumes "a < pow2 (- 1022)"
  shows "quantum a = - 1074"
proof -
  have "a < pow2 (- 1074 + 53)"
    using assms pow2_mono [of "- 1022" "- 1074 + 53"] by simp
  then show ?thesis
    unfolding quantum_def by (rule refine_stays) simp
qed

lemma round_half_even_error: "\<bar>of_int (round_half_even y) - y\<bar> \<le> 1 / 2"
  by (simp add: round_half_even_def Let_def)

lemma round_half_even_upper:
  assumes "y \<le> of_int N"
  shows "round_half_even y \<le> N"
proof -
  have "of_int (round_half_even y) \<le> y + 1 / 2"
    using round_half_even_error [of y] by linarith
  with assms have "(of_int (round_half_even y) :: real) < of_int N + 1"
    by linarith
  then show ?thesis
    by linarith
qed

lemma round_half_even_nonneg:
  assumes "0 \<le> y"
  shows "0 \<le> round_half_even y"
proof -
  have "y - 1 / 2 \<le> of_int (round_half_even y)"
    using round_half_even_error [of y] by linarith
  with assms have "(- 1 :: real) < of_int (round_half_even y)"
    by linarith
  then show ?thesis
    by linarith
qed


lemma scaled_error:
  fixes p :: real
  assumes "0 < p"
  shows "\<bar>m * p - a\<bar> = \<bar>m - a / p\<bar> * p"
proof -
  have "m * p - a = (m - a / p) * p"
    using assms by (simp add: field_simps)
  then show ?thesis
    using assms by (simp add: abs_mult)
qed

lemma fl_finite:
  assumes "\<bar>x\<bar> < pow2 1023"
  shows "is_finite (fl x) \<and> \<bar>val (fl x) - x\<bar> \<le> \<bar>x\<bar> / 2 ^ 53 + pow2 (- 1075)"
proof -
  define a where "a = \<bar>x\<bar>"
  define k where "k = quantum a"
  define m where "m = round_half_even (a / pow2 k)"
  define r where "r = of_int m * pow2 k"
  have a0: "0 \<le> a" by (simp add: a_def)
  have k: "a < pow2 (k + 53) \<and> k + 53 \<le> 1023 \<and> pow2 k / 2 \<le> a / 2 ^ 53 + pow2 (- 1075)"
  proof (cases "a < pow2 (- 1022)")
    case True
    then have "k = - 1074"
      by (simp add: k_def quantum_subnormal)
    moreover have "pow2 (- 1022) \<le> pow2 (- 1021)"
      by (intro pow2_mono) simp
    moreover have "pow2 (- 1074) / 2 = pow2 (- 1075)"
      by (simp add: pow2_def)
    ultimately show ?thesis
      using True a0 by simp
  next
    case False
    then have "pow2 (- 1022) \<le> a" by simp
    from quantum_normal [OF this] assms
    have b: "pow2 (k + 52) \<le> a" "a < pow2 (k + 53)"
      by (simp_all add: a_def k_def)
    from b(1) assms have "pow2 (k + 52) < pow2 1023"
      by (simp add: a_def)
    then have "k + 52 < 1023" by (rule pow2_less_cancel)
    moreover have "pow2 k / 2 \<le> a / 2 ^ 53"
      using b(1) by (simp add: pow2_52 field_simps)
    ultimately show ?thesis
      using b(2) pow2_pos [of "- 1075"] by simp
  qed
  have y: "a / pow2 k < 2 ^ 53"
    using k pow2_pos [of k] by (simp add: pow2_53 field_simps)
  have "a / pow2 k \<le> of_int (2 ^ 53)"
    using y by simp
  then have m_hi: "m \<le> 2 ^ 53"
    unfolding m_def by (rule round_half_even_upper)
  have m_lo: "0 \<le> m"
    unfolding m_def using a0 pow2_pos [of k] by (intro round_half_even_nonneg) simp
  have "(of_int m :: real) \<le> of_int (2 ^ 53)"
    using m_hi by (simp only: of_int_le_iff)
  then have "(of_int m :: real) \<le> 2 ^ 53"
    by simp
  then have "r \<le> 2 ^ 53 * pow2 k"
    unfolding r_def using pow2_pos [of k]
    by (intro mult_right_mono) simp_all
  also have "\<dots> = pow2 (k + 53)"
    by (simp add: pow2_53)
  also have "\<dots> \<le> pow2 1023"
    using k by (intro pow2_mono) simp
  also have "\<dots> < pow2 1024"
    by (intro pow2_strict_mono) simp
  finally have small: "\<not> pow2 1024 \<le> r"
    by simp
  have r0: "0 \<le> r"
    unfolding r_def using m_lo pow2_pos [of k] by simp
  have "\<bar>r - a\<bar> = \<bar>of_int m - a / pow2 k\<bar> * pow2 k"
    unfolding r_def using pow2_pos [of k] by (rule scaled_error)
  also have "\<dots> \<le> 1 / 2 * pow2 k"
    using round_half_even_error [of "a / pow2 k"] pow2_pos [of k]
    by (intro mult_right_mono) (simp_all add: m_def)
  finally have err: "\<bar>r - a\<bar> \<le> a / 2 ^ 53 + pow2 (- 1075)"
    using k by simp
  have fl: "fl x = (if m = 0 then (if x < 0 then NegZero else Fin 0)
                   else Fin (if x < 0 then - r else r))"
    using small by (simp add: fl_def Let_def a_def [symmetric] k_def [symmetric]
        m_def [symmetric] r_def [symmetric])
  have m0: "m = 0 \<Longrightarrow> r = 0" by (simp add: r_def)
  have v: "val (fl x) = (if x < 0 then - r else r)"
    using m0 by (auto simp: fl)
  have "\<bar>val (fl x) - x\<bar> = \<bar>r - a\<bar>"
    by (auto simp: v a_def)
  with err show ?thesis
    by (auto simp: fl a_def)
qed

lemma fl_normal:
  assumes "pow2 (- 1022) \<le> \<bar>x\<bar>" and "\<bar>x\<bar> < pow2 1023"
  shows "\<exists>c. fl x = Fin (x * c) \<and> 1 - 1 / 2 ^ 53 \<le> c \<and> c \<le> 1 + 1 / 2 ^ 53"
proof -
  define a where "a = \<bar>x\<bar>"
  define k where "k = quantum a"
  define m where "m = round_half_even (a / pow2 k)"
  define r where "r = of_int m * pow2 k"
  have a_pos: "0 < a"
    using assms(1) pow2_pos [of "- 1022"] by (simp add: a_def)
  from quantum_normal [OF assms [folded a_def]]
  have b: "pow2 (k + 52) \<le> a" "a < pow2 (k + 53)"
    by (simp_all add: k_def)
  from b(1) assms(2) have "pow2 (k + 52) < pow2 1023"
    by (simp add: a_def)
  then have kk: "k + 52 < 1023" by (rule pow2_less_cancel)
  note p52 = pow2_52 [of k] and p53 = pow2_53 [of k]
  have y_lo: "2 ^ 52 \<le> a / pow2 k" and y_hi: "a / pow2 k < 2 ^ 53"
    using b pow2_pos [of k] by (simp_all add: p52 p53 field_simps)
  have e: "\<bar>of_int m - a / pow2 k\<bar> \<le> 1 / 2"
    unfolding m_def by (rule round_half_even_error)
  have "(1::real) \<le> 2 ^ 52"
    by simp
  with e y_lo have "(0::real) < of_int m"
    by linarith
  then have m_pos: "0 < m" by simp
  have "a / pow2 k \<le> of_int (2 ^ 53)"
    using y_hi by simp
  then have m_hi: "m \<le> 2 ^ 53"
    unfolding m_def by (rule round_half_even_upper)
  have "(of_int m :: real) \<le> of_int (2 ^ 53)"
    using m_hi by (simp only: of_int_le_iff)
  then have "(of_int m :: real) \<le> 2 ^ 53"
    by simp
  then have "r \<le> 2 ^ 53 * pow2 k"
    unfolding r_def using pow2_pos [of k]
    by (intro mult_right_mono) simp_all
  also have "\<dots> = pow2 (k + 53)"
    by (simp add: p53)
  also have "\<dots> \<le> pow2 1023"
    using kk by (intro pow2_mono) simp
  also have "\<dots> < pow2 1024"
    by (intro pow2_strict_mono) simp
  finally have small: "\<not> pow2 1024 \<le> r"
    by simp
  have fl: "fl x = Fin (if x < 0 then - r else r)"
    using small m_pos by (simp add: fl_def Let_def a_def [symmetric] k_def [symmetric]
        m_def [symmetric] r_def [symmetric])
  have "\<bar>r - a\<bar> = \<bar>of_int m - a / pow2 k\<bar> * pow2 k"
    unfolding r_def using pow2_pos [of k] by (rule scaled_error)
  also have "\<dots> \<le> 1 / 2 * pow2 k"
    using e pow2_pos [of k] by (intro mult_right_mono) simp_all
  also have "\<dots> \<le> a / 2 ^ 53"
    using b(1) by (simp add: p52 field_simps)
  finally have err: "\<bar>r - a\<bar> \<le> a / 2 ^ 53" .
  define c where "c = r / a"
  have "x * c = (if x < 0 then - r else r)"
    using a_pos by (auto simp: c_def a_def)
  moreover have "1 - 1 / 2 ^ 53 \<le> c" "c \<le> 1 + 1 / 2 ^ 53"
  proof -
    have "\<bar>c - 1\<bar> = \<bar>r - a\<bar> / a"
      using a_pos by (simp add: c_def field_simps)
    also have "\<dots> \<le> (a / 2 ^ 53) / a"
      using err a_pos by (intro divide_right_mono) simp_all
    also have "\<dots> = 1 / 2 ^ 53"
      using a_pos by simp
    finally have "\<bar>c - 1\<bar> \<le> 1 / 2 ^ 53" .
    then show "1 - 1 / 2 ^ 53 \<le> c" "c \<le> 1 + 1 / 2 ^ 53"
      by linarith+
  qed
  ultimately show ?thesis
    using fl by (intro exI [of _ c]) simp
qed

section \<open>Reading a printed number back\<close>

lemma digit_value_digit_char:
  assumes "d < 10"
  shows "digit_value (digit_char d) = d"
proof -
  from assms have "d = 0 \<or> d = 1 \<or> d = 2 \<or> d = 3 \<or> d = 4 \<or> d = 5 \<or> d = 6 \<or> d = 7 \<or> d = 8 \<or> d = 9"
    by arith
  then show ?thesis
    by (elim disjE) (simp_all add: digit_char_def digit_value_def)
qed

lemma read_digits_snoc: "read_digits (ds @ [c]) = 10 * read_digits ds + digit_value c"
  by (simp add: read_digits_def)

lemma read_digits_decimal: "read_digits (decimal n) = n"
proof (induction n rule: decimal.induct)
  case (1 n)
  show ?case
  proof (cases "n < 10")
    case True
    then have "decimal n = [digit_char n]"
      by (subst decimal.simps) simp
    with True show ?thesis
      using read_digits_snoc [of "[]" "digit_char n"]
      by (simp add: digit_value_digit_char read_digits_def)
  next
    case False
    then have "decimal n = decimal (n div 10) @ [digit_char (n mod 10)]"
      by (subst decimal.simps) simp
    with False 1 show ?thesis
      by (simp add: read_digits_snoc digit_value_digit_char)
  qed
qed

lemma read_digits_zeros: "read_digits (replicate j (CHR ''0'') @ ds) = read_digits ds"
  by (induction j) (simp_all add: read_digits_def digit_value_def)

lemma point_no_digit: "is_digit c \<Longrightarrow> c \<noteq> CHR ''.''"
  by (auto simp: is_digit_def)

lemma read_decimal_minus:
  "hd s \<noteq> CHR ''-'' \<Longrightarrow> read_decimal (CHR ''-'' # s) = - read_decimal s"
  by (simp add: read_decimal_def Let_def)

lemma read_fixed_digits:
  assumes "0 < f"
  shows "read_decimal (fixed_digits f n) = real n / 10 ^ f"
proof -
  define m where "m = (if length (decimal n) \<le> f
    then replicate (f + 1 - length (decimal n)) (CHR ''0'') @ decimal n else decimal n)"
  define k where "k = length m"
  have digits: "\<forall>c \<in> set m. c \<noteq> CHR ''.''"
    using decimal_digits [of n] by (auto simp: m_def list_all_iff point_no_digit)
  have len: "f + 1 \<le> k"
    by (simp add: k_def m_def)
  have fd: "fixed_digits f n = take (k - f) m @ CHR ''.'' # drop (k - f) m"
    using assms by (simp add: fixed_digits_def Let_def m_def k_def)
  have first: "hd (fixed_digits f n) \<noteq> CHR ''-''" and ne: "fixed_digits f n \<noteq> []"
    using fixed_digits_places [OF assms, of n] by (simp_all add: fd)
  have number: "read_digits m = n"
    by (simp add: m_def read_digits_zeros read_digits_decimal)
  have w: "takeWhile (\<lambda>c. c \<noteq> CHR ''.'') (fixed_digits f n) = take (k - f) m"
    unfolding fd using digits by (subst takeWhile_append2) (auto dest: in_set_takeD)
  have r: "dropWhile (\<lambda>c. c \<noteq> CHR ''.'') (fixed_digits f n) = CHR ''.'' # drop (k - f) m"
    unfolding fd using digits by (subst dropWhile_append2) (auto dest: in_set_takeD)
  have l: "length (drop (k - f) m) = f"
    using len by (simp add: k_def)
  show ?thesis
    using first number l by (simp add: read_decimal_def Let_def w r)
qed

lemma nearest_integer:
  fixes y :: real
  assumes "0 \<le> y"
  shows "\<bar>real (nat \<lfloor>y + 1 / 2\<rfloor>) - y\<bar> \<le> 1 / 2"
proof -
  have "0 \<le> \<lfloor>y + 1 / 2\<rfloor>" using assms by simp
  then have "real (nat \<lfloor>y + 1 / 2\<rfloor>) = of_int \<lfloor>y + 1 / 2\<rfloor>" by simp
  then show ?thesis by linarith
qed

lemma read_toFixed_magnitude:
  fixes a :: real
  assumes "0 < f" "0 \<le> a"
  shows "\<bar>read_decimal (fixed_digits f (nat \<lfloor>a * 10 ^ f + 1 / 2\<rfloor>)) - a\<bar> \<le> 1 / (2 * 10 ^ f)"
proof -
  define n where "n = nat \<lfloor>a * 10 ^ f + 1 / 2\<rfloor>"
  have "\<bar>real n - a * 10 ^ f\<bar> \<le> 1 / 2"
    unfolding n_def using assms(2) by (intro nearest_integer) simp
  then have "\<bar>real n - a * 10 ^ f\<bar> / 10 ^ f \<le> (1 / 2) / 10 ^ f"
    by (intro divide_right_mono) simp_all
  moreover have "real n / 10 ^ f - a = (real n - a * 10 ^ f) / 10 ^ f"
    by (simp add: field_simps)
  then have "\<bar>real n - a * 10 ^ f\<bar> / 10 ^ f = \<bar>real n / 10 ^ f - a\<bar>"
    by simp
  ultimately show ?thesis
    by (simp add: read_fixed_digits [OF assms(1)] n_def)
qed

lemma read_toFixed:
  assumes "0 < f" "is_finite v" "\<bar>val v\<bar> < 10 ^ 21"
  shows "\<bar>read_decimal (toFixed bi f v) - val v\<bar> \<le> 1 / (2 * 10 ^ f)"
proof (cases v)
  case NegZero
  then show ?thesis by (simp add: read_fixed_digits [OF assms(1)])
next
  case (Fin x)
  show ?thesis
  proof (cases "x < 0")
    case True
    have "\<bar>read_decimal (fixed_digits f (nat \<lfloor>\<bar>x\<bar> * 10 ^ f + 1 / 2\<rfloor>)) - \<bar>x\<bar>\<bar> \<le> 1 / (2 * 10 ^ f)"
      by (rule read_toFixed_magnitude [OF assms(1)]) simp
    moreover have "read_decimal (toFixed bi f v) =
        - read_decimal (fixed_digits f (nat \<lfloor>\<bar>x\<bar> * 10 ^ f + 1 / 2\<rfloor>))"
      using True assms(3) Fin fixed_digits_places [OF assms(1)]
      by (simp add: read_decimal_minus)
    ultimately show ?thesis using True Fin by simp
  next
    case False
    have "\<bar>read_decimal (fixed_digits f (nat \<lfloor>\<bar>x\<bar> * 10 ^ f + 1 / 2\<rfloor>)) - \<bar>x\<bar>\<bar> \<le> 1 / (2 * 10 ^ f)"
      by (rule read_toFixed_magnitude [OF assms(1)]) simp
    moreover have "read_decimal (toFixed bi f v) =
        read_decimal (fixed_digits f (nat \<lfloor>\<bar>x\<bar> * 10 ^ f + 1 / 2\<rfloor>))"
      using False assms(3) Fin by simp
    ultimately show ?thesis using False Fin by simp
  qed
qed (use assms in simp_all)

section \<open>The operations on finite numbers\<close>

lemma js_sub_Fin:
  "a \<noteq> 0 \<Longrightarrow> b \<noteq> 0 \<Longrightarrow> js_sub (Fin a) (Fin b) = (if a - b = 0 then Fin 0 else fl (a - b))"
  by (simp add: js_sub_def js_add_def)

lemma js_add_Fin:
  "a \<noteq> 0 \<Longrightarrow> b \<noteq> 0 \<Longrightarrow> js_add (Fin a) (Fin b) = (if a + b = 0 then Fin 0 else fl (a + b))"
  by (simp add: js_add_def)

lemma js_mul_Fin: "a \<noteq> 0 \<Longrightarrow> b \<noteq> 0 \<Longrightarrow> js_mul (Fin a) (Fin b) = fl (a * b)"
  by (simp add: js_mul_def Let_def)

lemma js_div_Fin: "a \<noteq> 0 \<Longrightarrow> b \<noteq> 0 \<Longrightarrow> js_div (Fin a) (Fin b) = fl (a / b)"
  by (simp add: js_div_def Let_def)

lemma between_nonzero: "between l u x \<Longrightarrow> 0 < l \<Longrightarrow> x \<noteq> 0"
  by (auto simp: between_def)

lemma between_abs: "between l u x \<Longrightarrow> between l u \<bar>x\<bar>"
  by (simp add: between_def)

lemma between_mult:
  assumes "between l u x" "between l' u' y" "0 \<le> l" "0 \<le> l'"
  shows "between (l * l') (u * u') (x * y)"
  using assms by (simp add: between_def abs_mult mult_mono)

lemma between_divide:
  assumes "between l u x" "between l' u' y" "0 \<le> l" "0 < l'"
  shows "between (l / u') (u / l') (x / y)"
proof -
  from assms have "0 < \<bar>y\<bar>" "0 \<le> \<bar>x\<bar>" "0 < u'"
    by (auto simp: between_def)
  with assms have "l / u' \<le> \<bar>x\<bar> / \<bar>y\<bar>" "\<bar>x\<bar> / \<bar>y\<bar> \<le> u / l'"
    by (simp_all add: between_def frac_le)
  then show ?thesis
    by (simp add: between_def)
qed

lemma between_weaken: "between l u x \<Longrightarrow> l' \<le> l \<Longrightarrow> u \<le> u' \<Longrightarrow> between l' u' x"
  by (simp add: between_def)

lemma moderate_between: "moderate x \<Longrightarrow> between (1 / 10 ^ 9) (10 ^ 9) x"
  by (simp add: moderate_def between_def)

lemma fl_between:
  assumes "between l u x" "1 / 10 ^ 60 \<le> l" "u \<le> 10 ^ 60" "l' \<le> l / 2" "u * 2 \<le> u'"
  shows "\<exists>c. fl x = Fin (x * c) \<and> 1 - 1 / 2 ^ 53 \<le> c \<and> c \<le> 1 + 1 / 2 ^ 53 \<and>
     between l' u' (x * c)"
proof -
  have "pow2 (- 1022) \<le> 1 / 10 ^ 60" "(10 ^ 60 :: real) < pow2 1023"
    by (simp_all add: pow2_def)
  with assms(1-3) have "pow2 (- 1022) \<le> \<bar>x\<bar>" "\<bar>x\<bar> < pow2 1023"
    by (simp_all add: between_def)
  from fl_normal [OF this] obtain c
    where c: "fl x = Fin (x * c)" "1 - 1 / 2 ^ 53 \<le> c" "c \<le> 1 + 1 / 2 ^ 53"
    by blast
  then have "between (1 / 2) 2 c"
    by (simp add: between_def)
  from between_mult [OF assms(1) this] assms(2) have "between (l * (1 / 2)) (u * 2) (x * c)"
    by simp
  from between_weaken [OF this, of l' u'] assms(4,5) have "between l' u' (x * c)"
    by simp
  with c show ?thesis by blast
qed

lemma product_error:
  fixes a b :: real
  assumes "1 - 1 / 2 ^ 53 \<le> a" "a \<le> 1 + 1 / 2 ^ 53" "1 - 1 / 2 ^ 53 \<le> b" "b \<le> 1 + 1 / 2 ^ 53"
  shows "(1 - 1 / 2 ^ 53) ^ 2 \<le> a * b \<and> a * b \<le> (1 + 1 / 2 ^ 53) ^ 2"
  unfolding power2_eq_square using assms by (intro conjI mult_mono) simp_all

lemma ratio_error:
  fixes a b c d :: real
  assumes "1 - 1 / 2 ^ 53 \<le> a" "a \<le> 1 + 1 / 2 ^ 53" "1 - 1 / 2 ^ 53 \<le> b" "b \<le> 1 + 1 / 2 ^ 53"
    and "1 - 1 / 2 ^ 53 \<le> c" "c \<le> 1 + 1 / 2 ^ 53" "1 - 1 / 2 ^ 53 \<le> d" "d \<le> 1 + 1 / 2 ^ 53"
  shows "\<bar>a * b / (c * d) - 1\<bar> \<le> 8 / 2 ^ 53"
proof -
  note n = product_error [OF assms(1-4)] and m = product_error [OF assms(5-8)]
  have pos: "(0 :: real) < (1 - 1 / 2 ^ 53) ^ 2" by simp
  with n m have pos': "0 < a * b" "0 < c * d" by linarith+
  have "a * b / (c * d) \<le> (1 + 1 / 2 ^ 53) ^ 2 / (1 - 1 / 2 ^ 53) ^ 2"
    using n m pos pos' by (intro frac_le) simp_all
  moreover have "(1 - 1 / 2 ^ 53) ^ 2 / (1 + 1 / 2 ^ 53) ^ 2 \<le> a * b / (c * d)"
    using n m pos pos' by (intro frac_le) simp_all
  moreover have "(1 + 1 / 2 ^ 53) ^ 2 / (1 - 1 / 2 ^ 53) ^ 2 \<le> (1 + 8 / 2 ^ 53 :: real)"
    by (simp add: field_simps power2_eq_square)
  moreover have "(1 - 8 / 2 ^ 53 :: real) \<le> (1 - 1 / 2 ^ 53) ^ 2 / (1 + 1 / 2 ^ 53) ^ 2"
    by (simp add: field_simps power2_eq_square)
  ultimately show ?thesis by linarith
qed

lemma product_error_abs:
  fixes a b :: real
  assumes "1 - 1 / 2 ^ 53 \<le> a" "a \<le> 1 + 1 / 2 ^ 53" "1 - 1 / 2 ^ 53 \<le> b" "b \<le> 1 + 1 / 2 ^ 53"
  shows "\<bar>a * b - 1\<bar> \<le> 3 / 2 ^ 53"
proof -
  note n = product_error [OF assms]
  have "(1 - 3 / 2 ^ 53 :: real) \<le> (1 - 1 / 2 ^ 53) ^ 2" "(1 + 1 / 2 ^ 53) ^ 2 \<le> (1 + 3 / 2 ^ 53 :: real)"
    by (simp_all add: field_simps power2_eq_square)
  with n show ?thesis by linarith
qed

section \<open>The error of the trade parameters\<close>

lemma stop_distance:
  assumes "moderate e" "moderate s" "1 / 10 ^ 9 \<le> \<bar>e - s\<bar>"
  shows "\<exists>c. js_abs (js_sub (Fin e) (Fin s)) = Fin (\<bar>e - s\<bar> * c) \<and>
     1 - 1 / 2 ^ 53 \<le> c \<and> c \<le> 1 + 1 / 2 ^ 53 \<and>
     between (1 / 10 ^ 10) (10 ^ 10) (\<bar>e - s\<bar> * c)"
proof -
  from assms(1,2) have nz: "e \<noteq> 0" "s \<noteq> 0" and up: "\<bar>e - s\<bar> \<le> 2 * 10 ^ 9"
    by (auto simp: moderate_def)
  have "(0 :: real) < 1 / 10 ^ 9" by simp
  with assms(3) have "0 < \<bar>e - s\<bar>" by linarith
  then have ne: "e - s \<noteq> 0" by simp
  have "between (1 / 10 ^ 9) (2 * 10 ^ 9) (e - s)"
    using assms(3) up by (simp add: between_def)
  from fl_between [OF this, of "1 / 10 ^ 10" "10 ^ 10"] obtain c
    where c: "fl (e - s) = Fin ((e - s) * c)" "1 - 1 / 2 ^ 53 \<le> c" "c \<le> 1 + 1 / 2 ^ 53"
      "between (1 / 10 ^ 10) (10 ^ 10) ((e - s) * c)"
    by auto
  from c(2) have "0 \<le> c" by simp
  then have "\<bar>(e - s) * c\<bar> = \<bar>e - s\<bar> * c"
    by (simp add: abs_mult)
  with c nz ne show ?thesis
    by (intro exI [of _ c]) (simp add: js_sub_Fin between_def)
qed

lemma magnitude_bound:
  fixes v q :: real
  assumes "v \<le> q * (8 / 2 ^ 53) + q" "q \<le> 3 * 10 ^ 18"
  shows "v < 10 ^ 21"
  using assms by (simp add: field_simps)

lemma lot_size_error:
  assumes "moderate e" "moderate s" "moderate \<rho>" "1 / 10 ^ 9 \<le> \<bar>e - s\<bar>"
  shows "is_finite (lot_size (Fin e) (Fin s) (Fin \<rho>)) \<and>
     \<bar>val (lot_size (Fin e) (Fin s) (Fin \<rho>)) - \<rho> / \<bar>e - s\<bar>\<bar> \<le> \<bar>\<rho>\<bar> / \<bar>e - s\<bar> * (8 / 2 ^ 53) \<and>
     \<bar>val (lot_size (Fin e) (Fin s) (Fin \<rho>))\<bar> < 10 ^ 21"
proof -
  define D where "D = \<bar>e - s\<bar>"
  note be = moderate_between [OF assms(1)] and br = moderate_between [OF assms(3)]
  from be br have nz: "e \<noteq> 0" "\<rho> \<noteq> 0" by (auto simp: between_def)
  have "(0 :: real) < 1 / 10 ^ 9" by simp
  with assms(4) have D: "0 < D" "1 / 10 ^ 9 \<le> D" unfolding D_def by linarith+
  from stop_distance [OF assms(1,2,4)] obtain c1
    where c1: "js_abs (js_sub (Fin e) (Fin s)) = Fin (D * c1)"
      "1 - 1 / 2 ^ 53 \<le> c1" "c1 \<le> 1 + 1 / 2 ^ 53" "between (1 / 10 ^ 10) (10 ^ 10) (D * c1)"
    unfolding D_def by blast
  have "between (1 / 10 ^ 19) (10 ^ 19) (D * c1 / e)"
    using between_divide [OF c1(4) be] by simp
  from fl_between [OF this, of "1 / 10 ^ 20" "10 ^ 20"] obtain c2
    where c2: "fl (D * c1 / e) = Fin (D * c1 / e * c2)"
      "1 - 1 / 2 ^ 53 \<le> c2" "c2 \<le> 1 + 1 / 2 ^ 53" "between (1 / 10 ^ 20) (10 ^ 20) (D * c1 / e * c2)"
    by auto
  have q1: "js_div (Fin (D * c1)) (Fin e) = Fin (D * c1 / e * c2)"
    using between_nonzero [OF c1(4)] nz c2(1) by (simp add: js_div_Fin)
  have "between (1 / 10 ^ 29) (10 ^ 29) (\<rho> / (D * c1 / e * c2))"
    using between_divide [OF br c2(4)] by simp
  from fl_between [OF this, of "1 / 10 ^ 30" "10 ^ 30"] obtain c3
    where c3: "fl (\<rho> / (D * c1 / e * c2)) = Fin (\<rho> / (D * c1 / e * c2) * c3)"
      "1 - 1 / 2 ^ 53 \<le> c3" "c3 \<le> 1 + 1 / 2 ^ 53"
      "between (1 / 10 ^ 30) (10 ^ 30) (\<rho> / (D * c1 / e * c2) * c3)"
    by auto
  have q2: "js_div (Fin \<rho>) (Fin (D * c1 / e * c2)) = Fin (\<rho> / (D * c1 / e * c2) * c3)"
    using between_nonzero [OF c2(4)] nz c3(1) by (simp add: js_div_Fin)
  have "between (1 / 10 ^ 39) (10 ^ 39) (\<rho> / (D * c1 / e * c2) * c3 / e)"
    using between_divide [OF c3(4) be] by simp
  from fl_between [OF this, of "1 / 10 ^ 40" "10 ^ 40"] obtain c4
    where c4: "fl (\<rho> / (D * c1 / e * c2) * c3 / e) = Fin (\<rho> / (D * c1 / e * c2) * c3 / e * c4)"
      "1 - 1 / 2 ^ 53 \<le> c4" "c4 \<le> 1 + 1 / 2 ^ 53"
    by auto
  have q3: "js_div (Fin (\<rho> / (D * c1 / e * c2) * c3)) (Fin e) =
      Fin (\<rho> / (D * c1 / e * c2) * c3 / e * c4)"
    using between_nonzero [OF c3(4)] nz c4(1) by (simp add: js_div_Fin)
  define v where "v = \<rho> / (D * c1 / e * c2) * c3 / e * c4"
  have lot: "lot_size (Fin e) (Fin s) (Fin \<rho>) = Fin v"
    unfolding lot_size_def c1(1) q1 q2 q3 v_def by (rule refl)
  have pos: "0 < c1" "0 < c2"
    using c1(2) c2(2) by simp_all
  have "v = \<rho> / D * (c3 * c4 / (c1 * c2))"
    using nz D(1) pos by (simp add: v_def field_simps)
  then have "v - \<rho> / D = \<rho> / D * (c3 * c4 / (c1 * c2) - 1)"
    by (simp add: algebra_simps)
  then have "\<bar>v - \<rho> / D\<bar> = \<bar>\<rho>\<bar> / D * \<bar>c3 * c4 / (c1 * c2) - 1\<bar>"
    using D(1) by (simp add: abs_mult)
  also have "\<dots> \<le> \<bar>\<rho>\<bar> / D * (8 / 2 ^ 53)"
    using D(1) ratio_error [OF c3(2,3) c4(2,3) c1(2,3) c2(2,3)]
    by (intro mult_left_mono) simp_all
  finally have err: "\<bar>v - \<rho> / D\<bar> \<le> \<bar>\<rho>\<bar> / D * (8 / 2 ^ 53)" .
  have "\<bar>\<rho>\<bar> / D \<le> 10 ^ 9 / (1 / 10 ^ 9)"
    using assms(3) D by (intro frac_le) (simp_all add: moderate_def)
  then have size: "\<bar>\<rho>\<bar> / D \<le> 10 ^ 18"
    by simp
  have "\<bar>\<rho> / D\<bar> = \<bar>\<rho>\<bar> / D"
    using D(1) by simp
  moreover have "\<bar>v\<bar> \<le> \<bar>v - \<rho> / D\<bar> + \<bar>\<rho> / D\<bar>"
    by linarith
  ultimately have "\<bar>v\<bar> \<le> \<bar>\<rho>\<bar> / D * (8 / 2 ^ 53) + \<bar>\<rho>\<bar> / D"
    using err by linarith
  then have "\<bar>v\<bar> < 10 ^ 21"
    using size by (intro magnitude_bound [of _ "\<bar>\<rho>\<bar> / D"]) simp_all
  with lot err show ?thesis
    by (simp add: D_def)
qed

lemma rounded_sum:
  assumes "t = (if x = 0 then Fin 0 else fl x)" "\<bar>x\<bar> < pow2 1023"
  shows "is_finite t \<and> \<bar>val t - x\<bar> \<le> \<bar>x\<bar> / 2 ^ 53 + pow2 (- 1075)"
  using fl_finite [OF assms(2)] pow2_pos [of "- 1075"] by (simp add: assms(1) less_imp_le)

lemma error_sum:
  fixes d d1 d2 m \<pi> P a :: real
  assumes "d \<le> d1 + d2" "d1 \<le> m / 2 ^ 53 + \<pi>" "d2 \<le> P * (3 / 2 ^ 53)" "m \<le> a + 2 * P"
    "\<pi> \<le> a / 2 ^ 53" "0 \<le> P" "0 \<le> a"
  shows "d \<le> (a + P) * (8 / 2 ^ 53)"
  using assms by (simp add: field_simps)

lemma take_profit_arith:
  fixes v x X P a :: real
  assumes "\<bar>v - x\<bar> \<le> \<bar>x\<bar> / 2 ^ 53 + pow2 (- 1075)" "\<bar>x - X\<bar> \<le> P * (3 / 2 ^ 53)"
    "\<bar>x\<bar> \<le> a + 2 * P" "0 \<le> P" "1 / 10 ^ 9 \<le> a"
  shows "\<bar>v - X\<bar> \<le> (a + P) * (8 / 2 ^ 53)"
proof -
  have "pow2 (- 1075) \<le> (1 / 10 ^ 9) / 2 ^ 53"
    by (simp add: pow2_def)
  also have "\<dots> \<le> a / 2 ^ 53"
    using assms(5) by (intro divide_right_mono) simp_all
  finally have small: "pow2 (- 1075) \<le> a / 2 ^ 53" .
  have "(0 :: real) \<le> 1 / 10 ^ 9" by simp
  with assms(5) have a: "0 \<le> a" by linarith
  have "\<bar>v - X\<bar> \<le> \<bar>v - x\<bar> + \<bar>x - X\<bar>" by linarith
  from error_sum [OF this assms(1,2,3) small assms(4) a] show ?thesis .
qed

lemma take_profit_error:
  assumes "moderate e" "moderate s" "moderate r" "1 / 10 ^ 9 \<le> \<bar>e - s\<bar>"
  shows "is_finite (take_profit direction (Fin e) (Fin s) (Fin r)) \<and>
     \<bar>val (take_profit direction (Fin e) (Fin s) (Fin r)) -
        (if direction = bullish then e + \<bar>e - s\<bar> * r else e - \<bar>e - s\<bar> * r)\<bar>
       \<le> (\<bar>e\<bar> + \<bar>e - s\<bar> * \<bar>r\<bar>) * (8 / 2 ^ 53) \<and>
     \<bar>val (take_profit direction (Fin e) (Fin s) (Fin r))\<bar> < 10 ^ 21"
proof -
  define D where "D = \<bar>e - s\<bar>"
  define P where "P = D * \<bar>r\<bar>"
  define t where "t = take_profit direction (Fin e) (Fin s) (Fin r)"
  define X where "X = (if direction = bullish then e + D * r else e - D * r)"
  note be = moderate_between [OF assms(1)] and br = moderate_between [OF assms(3)]
  from be br have nz: "e \<noteq> 0" "r \<noteq> 0" by (auto simp: between_def)
  from assms have D: "0 \<le> D" "D \<le> 2 * 10 ^ 9" and e: "1 / 10 ^ 9 \<le> \<bar>e\<bar>" "\<bar>e\<bar> \<le> 10 ^ 9"
    and r: "\<bar>r\<bar> \<le> 10 ^ 9"
    by (auto simp: D_def moderate_def)
  have P: "0 \<le> P" unfolding P_def using D(1) by simp
  have "P \<le> (2 * 10 ^ 9) * 10 ^ 9"
    unfolding P_def using D r by (intro mult_mono) simp_all
  then have P_size: "P \<le> 2 * 10 ^ 18" by simp
  from stop_distance [OF assms(1,2,4)] obtain c1
    where c1: "js_abs (js_sub (Fin e) (Fin s)) = Fin (D * c1)"
      "1 - 1 / 2 ^ 53 \<le> c1" "c1 \<le> 1 + 1 / 2 ^ 53" "between (1 / 10 ^ 10) (10 ^ 10) (D * c1)"
    unfolding D_def by blast
  have "between (1 / 10 ^ 19) (10 ^ 19) (D * c1 * r)"
    using between_mult [OF c1(4) br] by simp
  from fl_between [OF this, of "1 / 10 ^ 20" "10 ^ 20"] obtain c2
    where c2: "fl (D * c1 * r) = Fin (D * c1 * r * c2)"
      "1 - 1 / 2 ^ 53 \<le> c2" "c2 \<le> 1 + 1 / 2 ^ 53" "between (1 / 10 ^ 20) (10 ^ 20) (D * c1 * r * c2)"
    by auto
  define p where "p = D * c1 * r * c2"
  have mul: "js_mul (Fin (D * c1)) (Fin r) = Fin p"
    using between_nonzero [OF c1(4)] nz c2(1) by (simp add: js_mul_Fin p_def)
  have p_nz: "p \<noteq> 0"
    using between_nonzero [OF c2(4)] by (simp add: p_def)
  define x where "x = (if direction = bullish then e + p else e - p)"
  have "t = (if direction = bullish then js_add (Fin e) (Fin p) else js_sub (Fin e) (Fin p))"
    by (simp add: t_def take_profit_def c1(1) mul)
  also have "\<dots> = (if x = 0 then Fin 0 else fl x)"
  proof (cases "direction = bullish")
    case True
    then have "x = e + p" by (simp add: x_def)
    then show ?thesis
      unfolding js_add_Fin [OF nz(1) p_nz] using True by simp
  next
    case False
    then have "x = e - p" by (simp add: x_def)
    then show ?thesis
      unfolding js_sub_Fin [OF nz(1) p_nz] using False by simp
  qed
  finally have t: "t = (if x = 0 then Fin 0 else fl x)" .
  have "p - D * r = D * r * (c1 * c2 - 1)"
    by (simp add: p_def algebra_simps)
  then have "\<bar>p - D * r\<bar> = P * \<bar>c1 * c2 - 1\<bar>"
    using D(1) by (simp add: P_def abs_mult)
  also have "\<dots> \<le> P * (3 / 2 ^ 53)"
    using P product_error_abs [OF c1(2,3) c2(2,3)] by (intro mult_left_mono) simp_all
  finally have p_err: "\<bar>p - D * r\<bar> \<le> P * (3 / 2 ^ 53)" .
  have "\<bar>D * r\<bar> = P"
    using D(1) by (simp add: P_def abs_mult)
  moreover have "P * (3 / 2 ^ 53) \<le> P * 1"
    using P by (intro mult_left_mono) simp_all
  moreover have "\<bar>p\<bar> \<le> \<bar>p - D * r\<bar> + \<bar>D * r\<bar>"
    by linarith
  ultimately have p_size: "\<bar>p\<bar> \<le> 2 * P"
    using p_err by linarith
  have x_err: "\<bar>x - X\<bar> \<le> P * (3 / 2 ^ 53)"
    using p_err by (simp add: x_def X_def abs_minus_commute)
  have x_size: "\<bar>x\<bar> \<le> \<bar>e\<bar> + 2 * P"
    using p_size by (simp add: x_def) linarith
  have "\<bar>x\<bar> \<le> 10 ^ 60"
    using x_size e(2) P_size by simp
  also have "(10 ^ 60 :: real) < pow2 1023"
    by (simp add: pow2_def)
  finally have "\<bar>x\<bar> < pow2 1023" .
  from rounded_sum [OF t this]
  have fin: "is_finite t" and round: "\<bar>val t - x\<bar> \<le> \<bar>x\<bar> / 2 ^ 53 + pow2 (- 1075)"
    by simp_all
  from take_profit_arith [OF round x_err x_size P e(1)]
  have err: "\<bar>val t - X\<bar> \<le> (\<bar>e\<bar> + P) * (8 / 2 ^ 53)" .
  have "\<bar>X\<bar> \<le> \<bar>e\<bar> + P"
    using \<open>\<bar>D * r\<bar> = P\<close> by (simp add: X_def) linarith
  moreover have "\<bar>val t\<bar> \<le> \<bar>val t - X\<bar> + \<bar>X\<bar>"
    by linarith
  ultimately have "\<bar>val t\<bar> \<le> (\<bar>e\<bar> + P) * (8 / 2 ^ 53) + (\<bar>e\<bar> + P)"
    using err by linarith
  then have "\<bar>val t\<bar> < 10 ^ 21"
    using e(2) P_size by (intro magnitude_bound [of _ "\<bar>e\<bar> + P"]) simp_all
  with fin err show ?thesis
    unfolding t_def X_def P_def D_def by (intro conjI)
qed

lemma printed_error:
  fixes d d1 d2 h Q :: real
  assumes "d \<le> d1 + d2" "d1 \<le> h" "d2 \<le> Q * (8 / 2 ^ 53)"
  shows "d \<le> h + Q / 2 ^ 50"
  using assms by (simp add: field_simps)

section \<open>Claims about the analysis\<close>



text \<open>
  Claim C7. When the reasoning service has answered with a verdict whose entry is zero,
  or whose entry or stop loss is missing, or parses to \<open>NaN\<close> or to zero,
  \<open>analyzeCandidate\<close> returns \<open>null\<close>, whatever \<open>isValid\<close> says.
\<close>

theorem invalid_verdict_skipped:
  assumes "GeminiRequest p apiKey \<in> set (fst (analyzeCandidate bi w ui coin direction apiKey))"
    and "callGemini bi w p apiKey = Fulfilled analysis"
    and "analysis ''entry'' = JNum (Fin 0) \<or> analysis ''entry'' = JNum NegZero \<or>
         analysis ''entry'' = JUndefined \<or> analysis ''entry'' = JNull \<or>
         analysis ''stopLoss'' = JUndefined \<or> analysis ''stopLoss'' = JNull \<or>
         isNaN (parseFloat bi (analysis ''entry'')) \<or> isNaN (parseFloat bi (analysis ''stopLoss'')) \<or>
         eq_zero (parseFloat bi (analysis ''entry'')) \<or> eq_zero (parseFloat bi (analysis ''stopLoss''))"
  shows "snd (analyzeCandidate bi w ui coin direction apiKey) = Fulfilled None"
proof -
  from assms(3) have "\<not> accepted bi analysis"
    by (auto simp: accepted_def)
  with analyze_verdict [OF assms(1)] assms(2) show ?thesis
    by simp
qed

text \<open>Claim C7, an instance: the verdict with \<open>isValid\<close> true and entry 0.\<close>

theorem invalid_verdict_skipped_witness:
  "GeminiRequest (demo_prompt bullish) ''key'' \<in> set (fst (analyzeCandidate demo_builtins
       (demo_world 50 (served (JStr (fenced block_0)))) demo_inputs demo_coin bullish ''key'')) \<and>
   callGemini demo_builtins (demo_world 50 (served (JStr (fenced block_0)))) (demo_prompt bullish)
     ''key'' = Fulfilled (demo_verdict 0 95) \<and>
   demo_verdict 0 95 ''isValid'' = JBool True \<and>
   demo_verdict 0 95 ''entry'' = JNum (Fin 0) \<and>
   snd (analyzeCandidate demo_builtins (demo_world 50 (served (JStr (fenced block_0)))) demo_inputs
     demo_coin bullish ''key'') = Fulfilled None"
proof -
  have sent: "GeminiRequest (demo_prompt bullish) ''key'' \<in> set (fst (analyzeCandidate demo_builtins
       (demo_world 50 (served (JStr (fenced block_0)))) demo_inputs demo_coin bullish ''key''))"
    by (simp add: demo_analyze)
  have got: "callGemini demo_builtins (demo_world 50 (served (JStr (fenced block_0))))
      (demo_prompt bullish) ''key'' = Fulfilled (demo_verdict 0 95)"
    by (simp add: demo_callGemini demo_parse)
  show ?thesis
    using invalid_verdict_skipped [OF sent got] sent got
    by (simp add: demo_verdict_fields)
qed

text \<open>
  Claim C1 says that a verdict whose entry and stop loss are equal and not zero is
  skipped. The program has no such check: for the verdict with entry 100 and stop loss
  100 it returns a trade whose stop loss is its entry and whose lot size is
  \<open>Infinity\<close>, from the division of the risk amount by a risk percentage of zero.
\<close>

theorem zero_stop_distance_emits_trade:
  "analyzeCandidate demo_builtins (demo_world 50 (served (JStr (fenced block_100)))) demo_inputs
     demo_coin bullish ''key'' =
   ([ChartRequest (JStr ''x''), GeminiRequest (demo_prompt bullish) ''key''],
    Fulfilled (Some
      \<lparr>t_name = JStr ''X'', t_symbol = ''X'', t_entry = ''100.00000'', t_sl = ''100.00000'',
       t_tp = ''100.00000'', t_lotSize = ''Infinity'', t_rr = Fin 3, t_notes = JUndefined,
       t_direction = Long\<rparr>))"
  by (simp add: demo_analyze demo_callGemini demo_parse demo_accepted demo_trade_100)

text \<open>
  The same holds for every verdict whose entry and stop loss are one finite number that
  is not zero: a trade is returned, and its stop loss is its entry.
\<close>

lemma equal_entry_and_stop_not_skipped:
  assumes "GeminiRequest p apiKey \<in> set (fst (analyzeCandidate bi w ui coin direction apiKey))"
    and "callGemini bi w p apiKey = Fulfilled analysis"
    and "truthy (analysis ''isValid'')"
    and "analysis ''entry'' = JNum (Fin x)" and "analysis ''stopLoss'' = JNum (Fin x)" and "x \<noteq> 0"
  shows "\<exists>t. snd (analyzeCandidate bi w ui coin direction apiKey) = Fulfilled (Some t) \<and>
           t_sl t = t_entry t"
proof -
  from assms(3-6) have "accepted bi analysis"
    by (simp add: accepted_def isNaN_def eq_zero_def)
  with analyze_verdict [OF assms(1)] assms(2)
  have "snd (analyzeCandidate bi w ui coin direction apiKey) =
      Fulfilled (Some (trade_for bi ui coin direction p analysis))"
    by simp
  moreover have "t_sl (trade_for bi ui coin direction p analysis) =
      t_entry (trade_for bi ui coin direction p analysis)"
    by (simp add: trade_for_def assms(4,5))
  ultimately show ?thesis by blast
qed

text \<open>
  Claim C2. For the trade that \<open>analyzeCandidate\<close> returns on a verdict with entry
  \<open>e\<close> and stop loss \<open>s\<close>, with the ratio \<open>r\<close> and the risk amount \<open>\<rho>\<close> of the
  settings, all of a magnitude between \<open>10\<^sup>-\<^sup>9\<close> and \<open>10\<^sup>9\<close> and \<open>e\<close> and \<open>s\<close> at least
  \<open>10\<^sup>-\<^sup>9\<close> apart: the take profit is a numeral with 5 decimals whose value is
  \<open>e + |e - s| \<times> r\<close> for a bullish candidate and \<open>e - |e - s| \<times> r\<close> for a bearish
  one, up to half a unit of the fifth decimal and the rounding of the three binary64
  operations, at most \<open>(|e| + |e - s| \<times> |r|) / 2\<^sup>5\<^sup>0\<close>; the lot size is a numeral with
  4 decimals whose value is \<open>(\<rho> / (|e - s| / e)) / e\<close>, up to half a unit of the fourth
  decimal and the rounding of the four operations, at most \<open>(|\<rho>| / |e - s|) / 2\<^sup>5\<^sup>0\<close>;
  and the side is long for bullish and short for bearish.
\<close>

theorem trade_parameters:
  assumes "GeminiRequest p apiKey \<in> set (fst (analyzeCandidate bi w ui coin direction apiKey))"
    and "callGemini bi w p apiKey = Fulfilled analysis"
    and "snd (analyzeCandidate bi w ui coin direction apiKey) = Fulfilled (Some t)"
    and "parseFloat bi (analysis ''entry'') = Fin e"
    and "parseFloat bi (analysis ''stopLoss'') = Fin s"
    and "parseFloat_text bi (rrRatioInput ui) = Fin r"
    and "parseFloat_text bi (riskAmountInput ui) = Fin \<rho>"
    and "moderate e" and "moderate s" and "moderate r" and "moderate \<rho>"
    and "1 / 10 ^ 9 \<le> \<bar>e - s\<bar>"
  shows "decimal_places 5 (t_tp t) \<and>
         \<bar>read_decimal (t_tp t) - (if direction = bullish then e + \<bar>e - s\<bar> * r else e - \<bar>e - s\<bar> * r)\<bar>
           \<le> 5 / 10 ^ 6 + (\<bar>e\<bar> + \<bar>e - s\<bar> * \<bar>r\<bar>) / 2 ^ 50 \<and>
         decimal_places 4 (t_lotSize t) \<and>
         \<bar>read_decimal (t_lotSize t) - (\<rho> / (\<bar>e - s\<bar> / e)) / e\<bar>
           \<le> 5 / 10 ^ 5 + (\<bar>\<rho>\<bar> / \<bar>e - s\<bar>) / 2 ^ 50 \<and>
         t_direction t = (if direction = bullish then Long else Short)"
proof -
  define tp where "tp = take_profit direction (Fin e) (Fin s) (Fin r)"
  define lot where "lot = lot_size (Fin e) (Fin s) (Fin \<rho>)"
  define X where "X = (if direction = bullish then e + \<bar>e - s\<bar> * r else e - \<bar>e - s\<bar> * r)"
  from analyze_verdict [OF assms(1)] assms(2,3)
  have "t = trade_for bi ui coin direction p analysis"
    by (simp split: if_splits)
  then have t: "t_tp t = toFixed bi 5 tp" "t_lotSize t = toFixed bi 4 lot"
    "t_direction t = (if direction = bullish then Long else Short)"
    by (simp_all add: trade_for_def assms(4-7) tp_def lot_def)
  from take_profit_error [OF assms(8,9,10,12), of direction]
  have tp: "is_finite tp" "\<bar>val tp - X\<bar> \<le> (\<bar>e\<bar> + \<bar>e - s\<bar> * \<bar>r\<bar>) * (8 / 2 ^ 53)"
    "\<bar>val tp\<bar> < 10 ^ 21"
    unfolding tp_def X_def by blast+
  from lot_size_error [OF assms(8,9,11,12)]
  have lot: "is_finite lot" "\<bar>val lot - \<rho> / \<bar>e - s\<bar>\<bar> \<le> \<bar>\<rho>\<bar> / \<bar>e - s\<bar> * (8 / 2 ^ 53)"
    "\<bar>val lot\<bar> < 10 ^ 21"
    unfolding lot_def by blast+
  have places: "decimal_places 5 (t_tp t)" "decimal_places 4 (t_lotSize t)"
    using toFixed_places [OF _ tp(1,3), of 5 bi] toFixed_places [OF _ lot(1,3), of 4 bi]
    by (simp_all add: t)
  have "\<bar>read_decimal (t_tp t) - val tp\<bar> \<le> 1 / (2 * 10 ^ 5)"
    unfolding t by (rule read_toFixed [OF _ tp(1,3)]) simp
  then have "\<bar>read_decimal (t_tp t) - val tp\<bar> \<le> 5 / 10 ^ 6"
    by simp
  moreover have "\<bar>read_decimal (t_tp t) - X\<bar> \<le> \<bar>read_decimal (t_tp t) - val tp\<bar> + \<bar>val tp - X\<bar>"
    by linarith
  ultimately have tp_err: "\<bar>read_decimal (t_tp t) - X\<bar> \<le> 5 / 10 ^ 6 + (\<bar>e\<bar> + \<bar>e - s\<bar> * \<bar>r\<bar>) / 2 ^ 50"
    using tp(2) by (intro printed_error)
  from assms(8) have "e \<noteq> 0"
    by (auto simp: moderate_def)
  then have exact: "(\<rho> / (\<bar>e - s\<bar> / e)) / e = \<rho> / \<bar>e - s\<bar>"
    by simp
  have "\<bar>read_decimal (t_lotSize t) - val lot\<bar> \<le> 1 / (2 * 10 ^ 4)"
    unfolding t by (rule read_toFixed [OF _ lot(1,3)]) simp
  then have "\<bar>read_decimal (t_lotSize t) - val lot\<bar> \<le> 5 / 10 ^ 5"
    by simp
  moreover have "\<bar>read_decimal (t_lotSize t) - \<rho> / \<bar>e - s\<bar>\<bar>
      \<le> \<bar>read_decimal (t_lotSize t) - val lot\<bar> + \<bar>val lot - \<rho> / \<bar>e - s\<bar>\<bar>"
    by linarith
  ultimately have lot_err: "\<bar>read_decimal (t_lotSize t) - \<rho> / \<bar>e - s\<bar>\<bar>
      \<le> 5 / 10 ^ 5 + (\<bar>\<rho>\<bar> / \<bar>e - s\<bar>) / 2 ^ 50"
    using lot(2) by (intro printed_error)
  from places tp_err lot_err t(3) show ?thesis
    unfolding exact X_def by (intro conjI)
qed

text \<open>
  Claim C2, instances: the bearish run with entry 300, stop loss 364, ratio 3 and risk
  amount 10 prints the take profit 108.00000, which is \<open>300 - |300 - 364| \<times> 3\<close>, and
  the lot size 0.1563, which is \<open>(10 / (64 / 300)) / 300 = 0.15625\<close> rounded; and the
  bullish run of the claim, entry 100 and stop loss 95, prints 115.00000 and 2.0000.
\<close>

theorem trade_parameters_witness:
  "snd (analyzeCandidate demo_builtins (demo_world 50 (served (JStr (fenced block_300)))) demo_inputs
     demo_coin bearish ''key'') =
     Fulfilled (Some
       \<lparr>t_name = JStr ''X'', t_symbol = ''X'', t_entry = ''300.00000'', t_sl = ''364.00000'',
        t_tp = ''108.00000'', t_lotSize = ''0.1563'', t_rr = Fin 3, t_notes = JUndefined,
        t_direction = Short\<rparr>) \<and>
   moderate 300 \<and> moderate 364 \<and> moderate 3 \<and> moderate 10 \<and>
   decimal_places 5 ''108.00000'' \<and>
   \<bar>read_decimal ''108.00000'' - (300 - \<bar>300 - 364\<bar> * 3)\<bar>
     \<le> 5 / 10 ^ 6 + (\<bar>300\<bar> + \<bar>300 - 364\<bar> * \<bar>3\<bar>) / 2 ^ 50 \<and>
   read_decimal ''108.00000'' = 108 \<and>
   decimal_places 4 ''0.1563'' \<and>
   \<bar>read_decimal ''0.1563'' - (10 / (\<bar>300 - 364\<bar> / 300)) / 300\<bar>
     \<le> 5 / 10 ^ 5 + (\<bar>10\<bar> / \<bar>300 - 364\<bar>) / 2 ^ 50 \<and>
   read_decimal ''0.1563'' = 1563 / 10000 \<and>
   snd (analyzeCandidate demo_builtins (demo_world 50 (served (JStr (fenced block_95)))) demo_inputs
     demo_coin bullish ''key'') =
     Fulfilled (Some
       \<lparr>t_name = JStr ''X'', t_symbol = ''X'', t_entry = ''100.00000'', t_sl = ''95.00000'',
        t_tp = ''115.00000'', t_lotSize = ''2.0000'', t_rr = Fin 3, t_notes = JUndefined,
        t_direction = Long\<rparr>) \<and>
   \<bar>read_decimal ''115.00000'' - (100 + \<bar>100 - 95\<bar> * 3)\<bar>
     \<le> 5 / 10 ^ 6 + (\<bar>100\<bar> + \<bar>100 - 95\<bar> * \<bar>3\<bar>) / 2 ^ 50 \<and>
   read_decimal ''115.00000'' = 115 \<and>
   \<bar>read_decimal ''2.0000'' - (10 / (\<bar>100 - 95\<bar> / 100)) / 100\<bar>
     \<le> 5 / 10 ^ 5 + (\<bar>10\<bar> / \<bar>100 - 95\<bar>) / 2 ^ 50 \<and>
   read_decimal ''2.0000'' = 2"
proof -
  let ?w = "demo_world 50 (served (JStr (fenced block_300)))"
  let ?t = "\<lparr>t_name = JStr ''X'', t_symbol = ''X'', t_entry = ''300.00000'', t_sl = ''364.00000'',
        t_tp = ''108.00000'', t_lotSize = ''0.1563'', t_rr = Fin 3, t_notes = JUndefined,
        t_direction = Short\<rparr>"
  let ?w' = "demo_world 50 (served (JStr (fenced block_95)))"
  let ?t' = "\<lparr>t_name = JStr ''X'', t_symbol = ''X'', t_entry = ''100.00000'', t_sl = ''95.00000'',
        t_tp = ''115.00000'', t_lotSize = ''2.0000'', t_rr = Fin 3, t_notes = JUndefined,
        t_direction = Long\<rparr>"
  have sent: "GeminiRequest (demo_prompt bearish) ''key'' \<in> set (fst (analyzeCandidate demo_builtins
       ?w demo_inputs demo_coin bearish ''key''))"
    by (simp add: demo_analyze)
  have got: "callGemini demo_builtins ?w (demo_prompt bearish) ''key'' = Fulfilled (demo_verdict 300 364)"
    by (simp add: demo_callGemini demo_parse)
  have out: "snd (analyzeCandidate demo_builtins ?w demo_inputs demo_coin bearish ''key'') =
      Fulfilled (Some ?t)"
    by (simp add: demo_analyze got demo_accepted_more demo_trade_300)
  have e: "parseFloat demo_builtins (demo_verdict 300 364 ''entry'') = Fin 300"
    and s: "parseFloat demo_builtins (demo_verdict 300 364 ''stopLoss'') = Fin 364"
    by (simp_all add: demo_verdict_fields)
  have m: "moderate 300" "moderate 364" "moderate 3" "moderate 10"
    by (simp_all add: moderate_def)
  have gap: "1 / 10 ^ 9 \<le> \<bar>300 - 364 :: real\<bar>"
    by simp
  note short = trade_parameters [OF sent got out e s demo_settings(2) demo_settings(1) m gap]
  have a1: "decimal_places 5 ''108.00000''"
    using short by simp
  have a2: "\<bar>read_decimal ''108.00000'' - (300 - \<bar>300 - 364\<bar> * 3)\<bar>
     \<le> 5 / 10 ^ 6 + (\<bar>300\<bar> + \<bar>300 - 364\<bar> * \<bar>3\<bar>) / 2 ^ 50"
    using short by simp
  have a3: "decimal_places 4 ''0.1563''"
    using short by simp
  have a4: "\<bar>read_decimal ''0.1563'' - (10 / (\<bar>300 - 364\<bar> / 300)) / 300\<bar>
     \<le> 5 / 10 ^ 5 + (\<bar>10\<bar> / \<bar>300 - 364\<bar>) / 2 ^ 50"
    using short by simp
  have sent': "GeminiRequest (demo_prompt bullish) ''key'' \<in> set (fst (analyzeCandidate demo_builtins
       ?w' demo_inputs demo_coin bullish ''key''))"
    by (simp add: demo_analyze)
  have got': "callGemini demo_builtins ?w' (demo_prompt bullish) ''key'' = Fulfilled (demo_verdict 100 95)"
    by (simp add: demo_callGemini demo_parse)
  have out': "snd (analyzeCandidate demo_builtins ?w' demo_inputs demo_coin bullish ''key'') =
      Fulfilled (Some ?t')"
    by (simp add: demo_analyze got' demo_accepted demo_trade_95)
  have e': "parseFloat demo_builtins (demo_verdict 100 95 ''entry'') = Fin 100"
    and s': "parseFloat demo_builtins (demo_verdict 100 95 ''stopLoss'') = Fin 95"
    by (simp_all add: demo_verdict_fields)
  have m': "moderate 100" "moderate 95"
    by (simp_all add: moderate_def)
  have gap': "1 / 10 ^ 9 \<le> \<bar>100 - 95 :: real\<bar>"
    by simp
  note long = trade_parameters [OF sent' got' out' e' s' demo_settings(2) demo_settings(1) m' m(3,4) gap']
  have b1: "\<bar>read_decimal ''115.00000'' - (100 + \<bar>100 - 95\<bar> * 3)\<bar>
     \<le> 5 / 10 ^ 6 + (\<bar>100\<bar> + \<bar>100 - 95\<bar> * \<bar>3\<bar>) / 2 ^ 50"
    using long by simp
  have b2: "\<bar>read_decimal ''2.0000'' - (10 / (\<bar>100 - 95\<bar> / 100)) / 100\<bar>
     \<le> 5 / 10 ^ 5 + (\<bar>10\<bar> / \<bar>100 - 95\<bar>) / 2 ^ 50"
    using long by simp
  from out m a1 a2 read_values(1) a3 a4 read_values(3) out' b1 read_values(2) b2 read_values(4)
  show ?thesis
    by (intro conjI)
qed

text \<open>
  Claim C2, the lot size is not always the exact quotient rounded to 4 decimals: the
  bullish run with entry 364, stop loss 300 and risk amount 10 prints 0.1562, where
  \<open>(10 / (64 / 364)) / 364 = 0.15625\<close> prints as 0.1563. The first division rounds
  \<open>16 / 91\<close> up, so the quotient of the last one falls below \<open>0.15625\<close>.
\<close>

theorem lot_size_rounded_below_exact:
  "snd (analyzeCandidate demo_builtins (demo_world 50 (served (JStr (fenced block_364)))) demo_inputs
     demo_coin bullish ''key'') =
     Fulfilled (Some
       \<lparr>t_name = JStr ''X'', t_symbol = ''X'', t_entry = ''364.00000'', t_sl = ''300.00000'',
        t_tp = ''556.00000'', t_lotSize = ''0.1562'', t_rr = Fin 3, t_notes = JUndefined,
        t_direction = Long\<rparr>) \<and>
   lot_size (Fin 364) (Fin 300) (Fin 10) = Fin (5629499534213119 / 36028797018963968) \<and>
   toFixed demo_builtins 4 (Fin ((10 / (\<bar>364 - 300\<bar> / 364)) / 364)) = ''0.1563''"
proof -
  let ?w = "demo_world 50 (served (JStr (fenced block_364)))"
  have got: "callGemini demo_builtins ?w (demo_prompt bullish) ''key'' = Fulfilled (demo_verdict 364 300)"
    by (simp add: demo_callGemini demo_parse)
  have out: "snd (analyzeCandidate demo_builtins ?w demo_inputs demo_coin bullish ''key'') =
      Fulfilled (Some
       \<lparr>t_name = JStr ''X'', t_symbol = ''X'', t_entry = ''364.00000'', t_sl = ''300.00000'',
        t_tp = ''556.00000'', t_lotSize = ''0.1562'', t_rr = Fin 3, t_notes = JUndefined,
        t_direction = Long\<rparr>)"
    by (simp add: demo_analyze got demo_accepted_more demo_trade_364)
  have lot: "lot_size (Fin 364) (Fin 300) (Fin 10) = Fin (5629499534213119 / 36028797018963968)"
    by (simp add: lot_size_def run_364 abs_values_more)
  have exact: "toFixed demo_builtins 4 (Fin ((10 / (\<bar>364 - 300\<bar> / 364)) / 364)) = ''0.1563''"
    by (simp add: printed_values_more)
  from out lot exact show ?thesis
    by (intro conjI)
qed

section \<open>The display of the results\<close>

lemma logMessage_kinds:
  "logMessage m ''error'' = ErrorLine m"
  "logMessage m ''log'' = LogLine m"
  by (simp_all add: logMessage_def)

lemma rejections_iff: "e \<in> set (rejections results) \<longleftrightarrow> Rejected e \<in> set results"
  by (induction results) (auto simp: rejections_def split: promise.splits)

lemma error_lines_display: "ErrorLine e \<in> set (display results) \<longleftrightarrow> Rejected e \<in> set results"
  by (auto simp: display_def Let_def logMessage_kinds rejections_iff)

lemma display_skips_null: "display (rs @ Fulfilled None # rs') = display (rs @ rs')"
  by (simp add: display_def validTrades_def rejections_def)

lemma runAnalysis_display:
  assumes "String_trim bi (geminiKeyInput ui) = apiKey" "apiKey \<noteq> []"
    and "fetch_markets w (coinCountInput ui) = Fulfilled marketsRes" "ok marketsRes"
    and "json_of marketsRes = Fulfilled topCryptos"
    and "allCandidates bi (parseFloat_text bi (momentumThresholdInput ui)) topCryptos \<noteq> []"
  shows "runAnalysis bi w ui =
     display (map (\<lambda>(c, d). snd (analyzeCandidate bi w ui c d apiKey))
       (allCandidates bi (parseFloat_text bi (momentumThresholdInput ui)) topCryptos))"
  using assms by (simp add: runAnalysis_def Let_def)

section \<open>Failures of the two services\<close>

text \<open>
  Claim C6. A chart response that is not \<open>ok\<close> makes \<open>analyzeCandidate\<close> return
  \<open>null\<close>; a result \<open>null\<close> adds nothing to the display, and an error line on the
  display is the message of a rejected analysis. Once the prompt is sent, a response of
  the reasoning service that is not \<open>ok\<close>, a response without text, a text without a
  fenced JSON block and a block that does not parse each reject the analysis, with the
  message of the error thrown. When the handler runs the analyses, it displays their
  results, so the message of a rejected analysis of a candidate is an error line of
  the display.
\<close>

theorem transport_failure_asymmetry:
  "(fetch_chart w (coin ''id'') = Fulfilled chartRes \<longrightarrow> \<not> ok chartRes \<longrightarrow>
      analyzeCandidate bi w ui coin direction apiKey =
        ([ChartRequest (coin ''id'')], Fulfilled None)) \<and>
   (GeminiRequest p apiKey \<in> set (fst (analyzeCandidate bi w ui coin direction apiKey)) \<longrightarrow>
    fetch_gemini w p apiKey = Fulfilled response \<longrightarrow>
      (\<not> ok response \<longrightarrow>
         (\<exists>e. snd (analyzeCandidate bi w ui coin direction apiKey) = Rejected e)) \<and>
      (\<not> ok response \<longrightarrow> text_of response = Fulfilled errorText \<longrightarrow>
         snd (analyzeCandidate bi w ui coin direction apiKey) =
           Rejected (''Gemini API error ('' @ decimal (status response) @ ''): '' @ errorText)) \<and>
      (ok response \<longrightarrow> json_of response = Fulfilled reply \<longrightarrow> \<not> truthy reply \<longrightarrow>
         snd (analyzeCandidate bi w ui coin direction apiKey) =
           Rejected ''No response text from Gemini.'') \<and>
      (ok response \<longrightarrow> json_of response = Fulfilled (JStr s) \<longrightarrow> s \<noteq> [] \<longrightarrow>
       match_json_block bi s = None \<longrightarrow>
         snd (analyzeCandidate bi w ui coin direction apiKey) =
           Rejected ''Gemini response did not contain a valid JSON code block.'') \<and>
      (ok response \<longrightarrow> json_of response = Fulfilled (JStr s) \<longrightarrow> s \<noteq> [] \<longrightarrow>
       match_json_block bi s = Some block \<longrightarrow> JSON_parse bi block = Inl m \<longrightarrow>
         snd (analyzeCandidate bi w ui coin direction apiKey) =
           Rejected (''Failed to parse JSON from Gemini: '' @ m))) \<and>
   display (rs @ Fulfilled None # rs') = display (rs @ rs') \<and>
   (ErrorLine e \<in> set (display results) \<longleftrightarrow> Rejected e \<in> set results) \<and>
   (String_trim bi (geminiKeyInput ui) = apiKey \<longrightarrow> apiKey \<noteq> [] \<longrightarrow>
    fetch_markets w (coinCountInput ui) = Fulfilled marketsRes \<longrightarrow> ok marketsRes \<longrightarrow>
    json_of marketsRes = Fulfilled topCryptos \<longrightarrow>
    (coin, direction) \<in> set (allCandidates bi (parseFloat_text bi (momentumThresholdInput ui))
       topCryptos) \<longrightarrow>
      runAnalysis bi w ui =
        display (map (\<lambda>(c, d). snd (analyzeCandidate bi w ui c d apiKey))
          (allCandidates bi (parseFloat_text bi (momentumThresholdInput ui)) topCryptos)) \<and>
      (snd (analyzeCandidate bi w ui coin direction apiKey) = Rejected e \<longrightarrow>
         ErrorLine e \<in> set (runAnalysis bi w ui)))"
proof -
  let ?run = "analyzeCandidate bi w ui coin direction apiKey"
  have chart: "?run = ([ChartRequest (coin ''id'')], Fulfilled None)"
    if "fetch_chart w (coin ''id'') = Fulfilled chartRes" "\<not> ok chartRes"
    using that by (simp add: analyzeCandidate_def Let_def)
  have sent: "snd ?run = Rejected x"
    if "GeminiRequest p apiKey \<in> set (fst ?run)" "callGemini bi w p apiKey = Rejected x" for x
    using analyze_verdict [OF that(1)] that(2) by simp
  have status: "\<exists>x. callGemini bi w p apiKey = Rejected x"
    if "fetch_gemini w p apiKey = Fulfilled response" "\<not> ok response"
    using that by (cases "text_of response") (simp_all add: callGemini_def)
  have body: "callGemini bi w p apiKey =
      Rejected (''Gemini API error ('' @ decimal (status response) @ ''): '' @ errorText)"
    if "fetch_gemini w p apiKey = Fulfilled response" "\<not> ok response"
      "text_of response = Fulfilled errorText"
    using that by (simp add: callGemini_def)
  have notext: "callGemini bi w p apiKey = Rejected ''No response text from Gemini.''"
    if "fetch_gemini w p apiKey = Fulfilled response" "ok response"
      "json_of response = Fulfilled reply" "\<not> truthy reply"
    using that by (simp add: callGemini_def)
  have noblock: "callGemini bi w p apiKey =
      Rejected ''Gemini response did not contain a valid JSON code block.''"
    if "fetch_gemini w p apiKey = Fulfilled response" "ok response"
      "json_of response = Fulfilled (JStr s)" "s \<noteq> []" "match_json_block bi s = None"
    using that by (simp add: callGemini_def)
  have noparse: "callGemini bi w p apiKey = Rejected (''Failed to parse JSON from Gemini: '' @ m)"
    if "fetch_gemini w p apiKey = Fulfilled response" "ok response"
      "json_of response = Fulfilled (JStr s)" "s \<noteq> []" "match_json_block bi s = Some block"
      "JSON_parse bi block = Inl m"
    using that by (simp add: callGemini_def)
  have page: "runAnalysis bi w ui =
        display (map (\<lambda>(c, d). snd (analyzeCandidate bi w ui c d apiKey))
          (allCandidates bi (parseFloat_text bi (momentumThresholdInput ui)) topCryptos)) \<and>
      (snd ?run = Rejected e \<longrightarrow> ErrorLine e \<in> set (runAnalysis bi w ui))"
    if k: "String_trim bi (geminiKeyInput ui) = apiKey" "apiKey \<noteq> []"
      and m: "fetch_markets w (coinCountInput ui) = Fulfilled marketsRes" "ok marketsRes"
        "json_of marketsRes = Fulfilled topCryptos"
      and c: "(coin, direction) \<in> set (allCandidates bi
        (parseFloat_text bi (momentumThresholdInput ui)) topCryptos)"
  proof -
    from c have "allCandidates bi (parseFloat_text bi (momentumThresholdInput ui)) topCryptos \<noteq> []"
      by auto
    note shown = runAnalysis_display [OF k m this]
    have "ErrorLine e \<in> set (runAnalysis bi w ui)" if "snd ?run = Rejected e"
    proof -
      from c that have "Rejected e \<in> set (map (\<lambda>(c, d). snd (analyzeCandidate bi w ui c d apiKey))
          (allCandidates bi (parseFloat_text bi (momentumThresholdInput ui)) topCryptos))"
        by (auto simp: image_iff intro!: bexI [of _ "(coin, direction)"])
      then show ?thesis
        by (simp only: shown error_lines_display)
    qed
    with shown show ?thesis by blast
  qed
  have first: "fetch_chart w (coin ''id'') = Fulfilled chartRes \<longrightarrow> \<not> ok chartRes \<longrightarrow>
      ?run = ([ChartRequest (coin ''id'')], Fulfilled None)"
    using chart by blast
  have second: "GeminiRequest p apiKey \<in> set (fst ?run) \<longrightarrow>
    fetch_gemini w p apiKey = Fulfilled response \<longrightarrow>
      (\<not> ok response \<longrightarrow> (\<exists>e. snd ?run = Rejected e)) \<and>
      (\<not> ok response \<longrightarrow> text_of response = Fulfilled errorText \<longrightarrow>
         snd ?run =
           Rejected (''Gemini API error ('' @ decimal (status response) @ ''): '' @ errorText)) \<and>
      (ok response \<longrightarrow> json_of response = Fulfilled reply \<longrightarrow> \<not> truthy reply \<longrightarrow>
         snd ?run = Rejected ''No response text from Gemini.'') \<and>
      (ok response \<longrightarrow> json_of response = Fulfilled (JStr s) \<longrightarrow> s \<noteq> [] \<longrightarrow>
       match_json_block bi s = None \<longrightarrow>
         snd ?run = Rejected ''Gemini response did not contain a valid JSON code block.'') \<and>
      (ok response \<longrightarrow> json_of response = Fulfilled (JStr s) \<longrightarrow> s \<noteq> [] \<longrightarrow>
       match_json_block bi s = Some block \<longrightarrow> JSON_parse bi block = Inl m \<longrightarrow>
         snd ?run = Rejected (''Failed to parse JSON from Gemini: '' @ m))"
  proof (intro impI)
    assume s: "GeminiRequest p apiKey \<in> set (fst ?run)"
      and f: "fetch_gemini w p apiKey = Fulfilled response"
    note fails = sent [OF s]
    have 1: "\<not> ok response \<longrightarrow> (\<exists>e. snd ?run = Rejected e)"
      using status [OF f] fails by blast
    have 2: "\<not> ok response \<longrightarrow> text_of response = Fulfilled errorText \<longrightarrow>
         snd ?run =
           Rejected (''Gemini API error ('' @ decimal (status response) @ ''): '' @ errorText)"
      using body [OF f] fails by blast
    have 3: "ok response \<longrightarrow> json_of response = Fulfilled reply \<longrightarrow> \<not> truthy reply \<longrightarrow>
         snd ?run = Rejected ''No response text from Gemini.''"
      using notext [OF f] fails by blast
    have 4: "ok response \<longrightarrow> json_of response = Fulfilled (JStr s) \<longrightarrow> s \<noteq> [] \<longrightarrow>
       match_json_block bi s = None \<longrightarrow>
         snd ?run = Rejected ''Gemini response did not contain a valid JSON code block.''"
      using noblock [OF f] fails by blast
    have 5: "ok response \<longrightarrow> json_of response = Fulfilled (JStr s) \<longrightarrow> s \<noteq> [] \<longrightarrow>
       match_json_block bi s = Some block \<longrightarrow> JSON_parse bi block = Inl m \<longrightarrow>
         snd ?run = Rejected (''Failed to parse JSON from Gemini: '' @ m)"
      using noparse [OF f] fails by blast
    from 1 2 3 4 5 show "(\<not> ok response \<longrightarrow> (\<exists>e. snd ?run = Rejected e)) \<and>
      (\<not> ok response \<longrightarrow> text_of response = Fulfilled errorText \<longrightarrow>
         snd ?run =
           Rejected (''Gemini API error ('' @ decimal (status response) @ ''): '' @ errorText)) \<and>
      (ok response \<longrightarrow> json_of response = Fulfilled reply \<longrightarrow> \<not> truthy reply \<longrightarrow>
         snd ?run = Rejected ''No response text from Gemini.'') \<and>
      (ok response \<longrightarrow> json_of response = Fulfilled (JStr s) \<longrightarrow> s \<noteq> [] \<longrightarrow>
       match_json_block bi s = None \<longrightarrow>
         snd ?run = Rejected ''Gemini response did not contain a valid JSON code block.'') \<and>
      (ok response \<longrightarrow> json_of response = Fulfilled (JStr s) \<longrightarrow> s \<noteq> [] \<longrightarrow>
       match_json_block bi s = Some block \<longrightarrow> JSON_parse bi block = Inl m \<longrightarrow>
         snd ?run = Rejected (''Failed to parse JSON from Gemini: '' @ m))"
      by (intro conjI)
  qed
  have fifth: "String_trim bi (geminiKeyInput ui) = apiKey \<longrightarrow> apiKey \<noteq> [] \<longrightarrow>
    fetch_markets w (coinCountInput ui) = Fulfilled marketsRes \<longrightarrow> ok marketsRes \<longrightarrow>
    json_of marketsRes = Fulfilled topCryptos \<longrightarrow>
    (coin, direction) \<in> set (allCandidates bi (parseFloat_text bi (momentumThresholdInput ui))
       topCryptos) \<longrightarrow>
      runAnalysis bi w ui =
        display (map (\<lambda>(c, d). snd (analyzeCandidate bi w ui c d apiKey))
          (allCandidates bi (parseFloat_text bi (momentumThresholdInput ui)) topCryptos)) \<and>
      (snd ?run = Rejected e \<longrightarrow> ErrorLine e \<in> set (runAnalysis bi w ui))"
    using page by (intro impI)
  from first second display_skips_null [of rs rs'] error_lines_display [of e results] fifth
  show ?thesis
    by (intro conjI)
qed


lemma demo_candidates:
  "allCandidates demo_builtins (Fin 3) [demo_coin] = [(demo_coin, bullish)]"
  by (simp add: allCandidates_def bullishCandidates_def bearishCandidates_def demo_coin_fields
      js_gt_def)

lemma demo_markets:
  "fetch_markets (demo_world n a) c =
     Fulfilled \<lparr>ok = True, status = 200, text_of = Fulfilled [], json_of = Fulfilled [demo_coin]\<rparr>"
  by (simp add: demo_world_def served_def)

lemma demo_fetch_gemini: "fetch_gemini (demo_world n a) p key = a"
  by (simp add: demo_world_def)

lemma display_one_rejected:
  "display [Rejected e] =
     [LogLine ''Analysis complete. No high-confluence ICT setups found based on the current rules.'',
      ErrorLine e]"
  by (simp add: display_def validTrades_def rejections_def logMessage_kinds)

text \<open>
  Claim C6, instances: a chart request answered with status 429, and the reasoning
  service answering with status 500, without text, without a block and with a block
  that does not parse.
\<close>

theorem transport_failure_asymmetry_witness:
  "analyzeCandidate demo_builtins
     ((demo_world 50 (served (JStr (fenced block_95))))
        \<lparr>fetch_chart := \<lambda>i. refused 429 ''Too Many Requests''\<rparr>)
     demo_inputs demo_coin bullish ''key'' = ([ChartRequest (JStr ''x'')], Fulfilled None) \<and>
   snd (analyzeCandidate demo_builtins (demo_world 50 (refused 500 ''overloaded'')) demo_inputs
     demo_coin bullish ''key'') = Rejected ''Gemini API error (500): overloaded'' \<and>
   runAnalysis demo_builtins (demo_world 50 (refused 500 ''overloaded'')) demo_inputs =
     [LogLine ''Analysis complete. No high-confluence ICT setups found based on the current rules.'',
      ErrorLine ''Gemini API error (500): overloaded''] \<and>
   snd (analyzeCandidate demo_builtins (demo_world 50 (served JUndefined)) demo_inputs
     demo_coin bullish ''key'') = Rejected ''No response text from Gemini.'' \<and>
   snd (analyzeCandidate demo_builtins (demo_world 50 (served (JStr ''No valid setup.''))) demo_inputs
     demo_coin bullish ''key'') =
     Rejected ''Gemini response did not contain a valid JSON code block.'' \<and>
   snd (analyzeCandidate demo_builtins (demo_world 50 (served (JStr (fenced block_bad)))) demo_inputs
     demo_coin bullish ''key'') =
     Rejected ''Failed to parse JSON from Gemini: Unexpected token } in JSON at position 15''"
proof -
  let ?p = "demo_prompt bullish"
  let ?run = "\<lambda>w. analyzeCandidate demo_builtins w demo_inputs demo_coin bullish ''key''"
  note chart = transport_failure_asymmetry [THEN conjunct1, rule_format]
  note service = transport_failure_asymmetry [THEN conjunct2, THEN conjunct1, rule_format]
  note page = transport_failure_asymmetry [THEN conjunct2, THEN conjunct2, THEN conjunct2,
      THEN conjunct2, rule_format]
  have sent: "GeminiRequest ?p ''key'' \<in> set (fst (?run (demo_world 50 a)))" for a
    by (simp add: demo_analyze)
  let ?w1 = "(demo_world 50 (served (JStr (fenced block_95))))
        \<lparr>fetch_chart := \<lambda>i. refused 429 ''Too Many Requests''\<rparr>"
  let ?r1 = "\<lparr>ok = False, status = 429, text_of = Fulfilled ''Too Many Requests'',
      json_of = Rejected ''Unexpected token''\<rparr> :: (jsnum \<times> jsnum) list response"
  have "fetch_chart ?w1 (demo_coin ''id'') = Fulfilled ?r1" "\<not> ok ?r1"
    by (simp_all add: refused_def)
  from chart [where w = ?w1 and coin = demo_coin and chartRes = ?r1, OF this]
  have one: "?run ?w1 = ([ChartRequest (JStr ''x'')], Fulfilled None)"
    by (simp add: demo_coin_fields)
  let ?r2 = "\<lparr>ok = False, status = 500, text_of = Fulfilled ''overloaded'',
      json_of = Rejected ''Unexpected token''\<rparr> :: jsval response"
  let ?w2 = "demo_world 50 (refused 500 ''overloaded'')"
  have f2: "fetch_gemini ?w2 ?p ''key'' = Fulfilled ?r2"
    by (simp add: demo_fetch_gemini refused_def)
  from service [where w = ?w2 and coin = demo_coin and response = ?r2
      and errorText = "''overloaded''", OF sent f2]
  have two: "snd (?run ?w2) = Rejected ''Gemini API error (500): overloaded''"
    by (simp add: decimal.simps digit_char_def)
  have "String_trim demo_builtins (geminiKeyInput demo_inputs) = ''key''" "''key'' \<noteq> []"
    "fetch_markets ?w2 (coinCountInput demo_inputs) = Fulfilled
       \<lparr>ok = True, status = 200, text_of = Fulfilled [], json_of = Fulfilled [demo_coin]\<rparr>"
    "ok \<lparr>ok = True, status = 200, text_of = Fulfilled [], json_of = Fulfilled [demo_coin]\<rparr>"
    "json_of \<lparr>ok = True, status = 200, text_of = Fulfilled [], json_of = Fulfilled [demo_coin]\<rparr> =
       Fulfilled [demo_coin]"
    "(demo_coin, bullish) \<in> set (allCandidates demo_builtins
        (parseFloat_text demo_builtins (momentumThresholdInput demo_inputs)) [demo_coin])"
    by (simp_all add: demo_settings demo_markets demo_candidates)
  from page [where w = ?w2 and coin = demo_coin and ui = demo_inputs and bi = demo_builtins
      and topCryptos = "[demo_coin]", OF this]
  have three: "runAnalysis demo_builtins ?w2 demo_inputs =
     [LogLine ''Analysis complete. No high-confluence ICT setups found based on the current rules.'',
      ErrorLine ''Gemini API error (500): overloaded'']"
    using two by (simp add: demo_settings demo_candidates display_one_rejected)
  let ?w3 = "demo_world 50 (served JUndefined)"
  let ?r3 = "\<lparr>ok = True, status = 200, text_of = Fulfilled [], json_of = Fulfilled JUndefined\<rparr>"
  have f3: "fetch_gemini ?w3 ?p ''key'' = Fulfilled ?r3"
    by (simp add: demo_fetch_gemini served_def)
  from service [where w = ?w3 and coin = demo_coin and response = ?r3 and reply = JUndefined,
      OF sent f3]
  have four: "snd (?run ?w3) = Rejected ''No response text from Gemini.''"
    by simp
  let ?w4 = "demo_world 50 (served (JStr ''No valid setup.''))"
  let ?r4 = "\<lparr>ok = True, status = 200, text_of = Fulfilled [],
      json_of = Fulfilled (JStr ''No valid setup.'')\<rparr>"
  have f4: "fetch_gemini ?w4 ?p ''key'' = Fulfilled ?r4"
    by (simp add: demo_fetch_gemini served_def)
  have m4: "match_json_block demo_builtins ''No valid setup.'' = None"
    by (simp add: demo_builtins_def fenced_def)
  from service [where w = ?w4 and coin = demo_coin and response = ?r4
      and s = "''No valid setup.''" and bi = demo_builtins, OF sent f4]
  have five: "snd (?run ?w4) = Rejected ''Gemini response did not contain a valid JSON code block.''"
    by (simp add: m4)
  let ?w5 = "demo_world 50 (served (JStr (fenced block_bad)))"
  let ?r5 = "\<lparr>ok = True, status = 200, text_of = Fulfilled [],
      json_of = Fulfilled (JStr (fenced block_bad))\<rparr>"
  have f5: "fetch_gemini ?w5 ?p ''key'' = Fulfilled ?r5"
    by (simp add: demo_fetch_gemini served_def)
  from service [where w = ?w5 and coin = demo_coin and response = ?r5
      and s = "fenced block_bad" and bi = demo_builtins and block = block_bad
      and m = "''Unexpected token } in JSON at position 15''", OF sent f5]
  have six: "snd (?run ?w5) =
      Rejected ''Failed to parse JSON from Gemini: Unexpected token } in JSON at position 15''"
    by (simp add: demo_match demo_parse fenced_nonempty)
  from one two three four five six show ?thesis
    by (intro conjI)
qed

section \<open>The fields of a trade\<close>

text \<open>
  Claim C9, as amended. In every trade that \<open>analyzeCandidate\<close> returns, the entry and
  the stop loss of the verdict are numbers that are neither \<open>NaN\<close> nor zero, of either
  sign; and each of entry, stop loss and take profit whose value is finite and below
  \<open>10\<^sup>2\<^sup>1\<close> in magnitude is printed by \<open>toFixed(5)\<close>, the lot size by \<open>toFixed(4)\<close>,
  as a decimal numeral with exactly 5, respectively 4, fraction digits. Nothing makes
  a field positive.
\<close>

theorem trade_fields_printed:
  assumes "snd (analyzeCandidate bi w ui coin direction apiKey) = Fulfilled (Some t)"
  shows "\<exists>p analysis.
           GeminiRequest p apiKey \<in> set (fst (analyzeCandidate bi w ui coin direction apiKey)) \<and>
           callGemini bi w p apiKey = Fulfilled analysis \<and>
           (let e = parseFloat bi (analysis ''entry'');
                s = parseFloat bi (analysis ''stopLoss'');
                profit = take_profit direction e s (parseFloat_text bi (rrRatioInput ui));
                lot = lot_size e s (parseFloat_text bi (riskAmountInput ui))
            in e \<noteq> NaN \<and> \<not> is_zero e \<and> s \<noteq> NaN \<and> \<not> is_zero s \<and>
               (is_finite e \<and> \<bar>val e\<bar> < 10 ^ 21 \<longrightarrow>
                  t_entry t = toFixed bi 5 e \<and> decimal_places 5 (t_entry t)) \<and>
               (is_finite s \<and> \<bar>val s\<bar> < 10 ^ 21 \<longrightarrow>
                  t_sl t = toFixed bi 5 s \<and> decimal_places 5 (t_sl t)) \<and>
               (is_finite profit \<and> \<bar>val profit\<bar> < 10 ^ 21 \<longrightarrow>
                  t_tp t = toFixed bi 5 profit \<and> decimal_places 5 (t_tp t)) \<and>
               (is_finite lot \<and> \<bar>val lot\<bar> < 10 ^ 21 \<longrightarrow>
                  t_lotSize t = toFixed bi 4 lot \<and> decimal_places 4 (t_lotSize t)))"
proof -
  from analyze_emitted [OF assms] obtain p analysis where
    sent: "fst (analyzeCandidate bi w ui coin direction apiKey) =
             [ChartRequest (coin ''id''), GeminiRequest p apiKey]"
    and got: "callGemini bi w p apiKey = Fulfilled analysis"
    and acc: "accepted bi analysis"
    and t: "t = trade_for bi ui coin direction p analysis"
    by blast
  have places: "is_finite v \<and> \<bar>val v\<bar> < 10 ^ 21 \<longrightarrow> decimal_places f (toFixed bi f v)"
    if "0 < f" for f v
    using toFixed_places [OF that] by blast
  from acc have "parseFloat bi (analysis ''entry'') \<noteq> NaN"
    "\<not> is_zero (parseFloat bi (analysis ''entry''))"
    "parseFloat bi (analysis ''stopLoss'') \<noteq> NaN"
    "\<not> is_zero (parseFloat bi (analysis ''stopLoss''))"
    by (simp_all add: accepted_def isNaN_def eq_zero_def)
  then have "let e = parseFloat bi (analysis ''entry'');
                s = parseFloat bi (analysis ''stopLoss'');
                profit = take_profit direction e s (parseFloat_text bi (rrRatioInput ui));
                lot = lot_size e s (parseFloat_text bi (riskAmountInput ui))
            in e \<noteq> NaN \<and> \<not> is_zero e \<and> s \<noteq> NaN \<and> \<not> is_zero s \<and>
               (is_finite e \<and> \<bar>val e\<bar> < 10 ^ 21 \<longrightarrow>
                  t_entry t = toFixed bi 5 e \<and> decimal_places 5 (t_entry t)) \<and>
               (is_finite s \<and> \<bar>val s\<bar> < 10 ^ 21 \<longrightarrow>
                  t_sl t = toFixed bi 5 s \<and> decimal_places 5 (t_sl t)) \<and>
               (is_finite profit \<and> \<bar>val profit\<bar> < 10 ^ 21 \<longrightarrow>
                  t_tp t = toFixed bi 5 profit \<and> decimal_places 5 (t_tp t)) \<and>
               (is_finite lot \<and> \<bar>val lot\<bar> < 10 ^ 21 \<longrightarrow>
                  t_lotSize t = toFixed bi 4 lot \<and> decimal_places 4 (t_lotSize t))"
    using places [of 5] places [of 4]
    by (simp add: Let_def t trade_for_def)
  with sent got show ?thesis
    by (intro exI [of _ p] exI [of _ analysis]) simp
qed

text \<open>Claim C9, an instance: the trade for entry 100 and stop loss 95.\<close>

theorem trade_fields_printed_witness:
  "snd (analyzeCandidate demo_builtins (demo_world 50 (served (JStr (fenced block_95)))) demo_inputs
     demo_coin bullish ''key'') =
     Fulfilled (Some
       \<lparr>t_name = JStr ''X'', t_symbol = ''X'', t_entry = ''100.00000'', t_sl = ''95.00000'',
        t_tp = ''115.00000'', t_lotSize = ''2.0000'', t_rr = Fin 3, t_notes = JUndefined,
        t_direction = Long\<rparr>) \<and>
   decimal_places 5 ''100.00000'' \<and> decimal_places 5 ''95.00000'' \<and>
   decimal_places 5 ''115.00000'' \<and> decimal_places 4 ''2.0000''"
proof -
  let ?w = "demo_world 50 (served (JStr (fenced block_95)))"
  let ?t = "\<lparr>t_name = JStr ''X'', t_symbol = ''X'', t_entry = ''100.00000'', t_sl = ''95.00000'',
        t_tp = ''115.00000'', t_lotSize = ''2.0000'', t_rr = Fin 3, t_notes = JUndefined,
        t_direction = Long\<rparr>"
  have out: "snd (analyzeCandidate demo_builtins ?w demo_inputs demo_coin bullish ''key'') =
      Fulfilled (Some ?t)"
    by (simp add: demo_analyze demo_callGemini demo_parse demo_accepted demo_trade_95)
  from trade_fields_printed [OF out] obtain p analysis where
    sent: "GeminiRequest p ''key'' \<in> set (fst (analyzeCandidate demo_builtins ?w demo_inputs
        demo_coin bullish ''key''))"
    and got: "callGemini demo_builtins ?w p ''key'' = Fulfilled analysis"
    and fields: "let e = parseFloat demo_builtins (analysis ''entry'');
                s = parseFloat demo_builtins (analysis ''stopLoss'');
                profit = take_profit bullish e s (parseFloat_text demo_builtins (rrRatioInput demo_inputs));
                lot = lot_size e s (parseFloat_text demo_builtins (riskAmountInput demo_inputs))
            in e \<noteq> NaN \<and> \<not> is_zero e \<and> s \<noteq> NaN \<and> \<not> is_zero s \<and>
               (is_finite e \<and> \<bar>val e\<bar> < 10 ^ 21 \<longrightarrow>
                  t_entry ?t = toFixed demo_builtins 5 e \<and> decimal_places 5 (t_entry ?t)) \<and>
               (is_finite s \<and> \<bar>val s\<bar> < 10 ^ 21 \<longrightarrow>
                  t_sl ?t = toFixed demo_builtins 5 s \<and> decimal_places 5 (t_sl ?t)) \<and>
               (is_finite profit \<and> \<bar>val profit\<bar> < 10 ^ 21 \<longrightarrow>
                  t_tp ?t = toFixed demo_builtins 5 profit \<and> decimal_places 5 (t_tp ?t)) \<and>
               (is_finite lot \<and> \<bar>val lot\<bar> < 10 ^ 21 \<longrightarrow>
                  t_lotSize ?t = toFixed demo_builtins 4 lot \<and> decimal_places 4 (t_lotSize ?t))"
    by blast
  from sent have p: "p = demo_prompt bullish"
    by (simp add: demo_analyze)
  from got have a: "analysis = demo_verdict 100 95"
    by (simp add: p demo_callGemini demo_parse)
  from fields have "decimal_places 5 ''100.00000'' \<and> decimal_places 5 ''95.00000'' \<and>
      decimal_places 5 ''115.00000'' \<and> decimal_places 4 ''2.0000''"
    by (simp add: a Let_def demo_verdict_fields demo_settings take_profit_def lot_size_def
        run_95 abs_values printed_values)
  with out show ?thesis by simp
qed

text \<open>
  Claim C9 as it was stated, with every monetary field strictly positive, fails: for a
  bearish candidate and the verdict with entry 100 and stop loss 150, the ratio 3 puts
  the take profit at \<open>100 - 50 \<times> 3\<close>, and the trade is returned with the take profit
  -50.00000.
\<close>

theorem wide_stop_short_take_profit_negative:
  "snd (analyzeCandidate demo_builtins (demo_world 50 (served (JStr (fenced block_150)))) demo_inputs
     demo_coin bearish ''key'') =
     Fulfilled (Some
       \<lparr>t_name = JStr ''X'', t_symbol = ''X'', t_entry = ''100.00000'', t_sl = ''150.00000'',
        t_tp = ''-50.00000'', t_lotSize = ''0.2000'', t_rr = Fin 3, t_notes = JUndefined,
        t_direction = Short\<rparr>) \<and>
   \<not> positive_decimal ''-50.00000''"
  by (simp add: demo_analyze demo_callGemini demo_parse demo_accepted demo_trade_150
      positive_decimal_def is_digit_def)

section \<open>One result for each candidate\<close>

text \<open>
  The handler has one result for each candidate, in the order of the candidates, and a
  trade among the results is on the display whatever the other results are. When each
  analysis runs is a matter of the promises of the runtime, which these functions do
  not describe.
\<close>

lemma results_in_candidate_order:
  "length (map (\<lambda>(c, d). snd (analyzeCandidate bi w ui c d key)) candidates) = length candidates \<and>
   (\<forall>i < length candidates.
      map (\<lambda>(c, d). snd (analyzeCandidate bi w ui c d key)) candidates ! i =
        snd (analyzeCandidate bi w ui (fst (candidates ! i)) (snd (candidates ! i)) key))"
  by (simp add: case_prod_beta)

lemma trades_displayed_beside_failures:
  assumes "Fulfilled (Some t) \<in> set results"
  shows "\<exists>ts. TradesContainer ts \<in> set (display results) \<and> t \<in> set ts"
proof -
  from assms have v: "t \<in> set (validTrades results)"
    by (induction results) (auto simp: validTrades_def)
  show ?thesis
  proof (cases "t_direction t")
    case Long
    with v have "t \<in> set (filter (\<lambda>t. t_direction t = Long) (validTrades results))" by simp
    moreover from this have "filter (\<lambda>t. t_direction t = Long) (validTrades results) \<noteq> []"
      by (auto simp: filter_empty_conv)
    ultimately show ?thesis
      by (intro exI [of _ "filter (\<lambda>t. t_direction t = Long) (validTrades results)"])
        (simp add: display_def Let_def)
  next
    case Short
    with v have "t \<in> set (filter (\<lambda>t. t_direction t = Short) (validTrades results))" by simp
    moreover from this have "filter (\<lambda>t. t_direction t = Short) (validTrades results) \<noteq> []"
      by (auto simp: filter_empty_conv)
    ultimately show ?thesis
      by (intro exI [of _ "filter (\<lambda>t. t_direction t = Short) (validTrades results)"])
        (simp add: display_def Let_def)
  qed
qed

end
